theory Spec2Isabelle
  imports Complex_Main "HOL-Library.Multiset"
begin

section \<open>Strings of the host language\<close>

text \<open>
  Strings are lists of code units. A code unit is modelled by \<^typ>\<open>char\<close>, so the
  model covers the code units 0 to 255 (Latin-1).
\<close>

definition toLowerCase_char :: "char \<Rightarrow> char" where
  "toLowerCase_char c =
     (let n = (of_char c :: nat)
      in if (65 \<le> n \<and> n \<le> 90) \<or> (192 \<le> n \<and> n \<le> 222 \<and> n \<noteq> 215)
         then char_of (n + 32) else c)"

definition toLowerCase :: "string \<Rightarrow> string" where
  "toLowerCase s = map toLowerCase_char s"

definition startsWith :: "string \<Rightarrow> string \<Rightarrow> bool" where
  "startsWith s t = (take (length t) s = t)"

definition endsWith :: "string \<Rightarrow> string \<Rightarrow> bool" where
  "endsWith s t = (length t \<le> length s \<and> drop (length s - length t) s = t)"

fun includes_str :: "string \<Rightarrow> string \<Rightarrow> bool" where
  "includes_str [] t = (t = [])"
| "includes_str (c # cs) t = (startsWith (c # cs) t \<or> includes_str cs t)"

section \<open>Numbers\<close>

text \<open>
  A finite number is held by the decimal digits of its shortest decimal representation:
  \<open>Number neg ds n\<close> stands for the value \<open>0.d\<^sub>1d\<^sub>2\<dots>d\<^sub>k \<times> 10\<^sup>n\<close>, negated when
  \<open>neg\<close> holds; these are the integers \<open>s\<close>, \<open>k\<close> and \<open>n\<close> from which the language
  standard derives the text of a number. Zero has no digits; the sign of zero is not
  kept. The rounding of a literal with more digits than a double holds, and the infinite
  values, are outside the model.
\<close>

datatype number = Number (negative: bool) (digits: "nat list") (point: int)

definition zero_number :: number where
  "zero_number = Number False [] 0"

definition nat_of_digits :: "nat list \<Rightarrow> nat" where
  "nat_of_digits ds = foldl (\<lambda>a d. 10 * a + d) 0 ds"

definition number_value :: "number \<Rightarrow> rat" where
  "number_value x =
     (let m = (of_nat (nat_of_digits (digits x)) :: rat);
          e = point x - int (length (digits x));
          a = (if 0 \<le> e then m * 10 ^ nat e else m / 10 ^ nat (- e))
      in if negative x then - a else a)"

fun digits_of_nat :: "nat \<Rightarrow> nat list" where
  "digits_of_nat n = (if n < 10 then [n] else digits_of_nat (n div 10) @ [n mod 10])"

definition digit_char :: "nat \<Rightarrow> char" where
  "digit_char d = char_of (48 + d)"

definition show_nat :: "nat \<Rightarrow> string" where
  "show_nat n = map digit_char (digits_of_nat n)"

definition strip_zeros :: "nat list \<Rightarrow> nat list" where
  "strip_zeros ds = rev (dropWhile (\<lambda>d. d = 0) (rev ds))"

text \<open>The text of a number (\<open>Number::toString\<close> with radix 10).\<close>

definition Number_toString :: "number \<Rightarrow> string" where
  "Number_toString x =
     (let ds = digits x; n = point x; k = int (length ds); cs = map digit_char ds
      in if ds = [] then ''0''
         else (if negative x then ''-'' else [])
           @ (if - 6 < n \<and> n \<le> 21 then
                (if k \<le> n then cs @ replicate (nat (n - k)) (CHR ''0'')
                 else if 0 < n then take (nat n) cs @ ''.'' @ drop (nat n) cs
                 else ''0.'' @ replicate (nat (- n)) (CHR ''0'') @ cs)
              else
                (let e = n - 1;
                     es = (if e < 0 then ''-'' else ''+'') @ show_nat (nat \<bar>e\<bar>)
                 in if k = 1 then cs @ ''e'' @ es
                    else take 1 cs @ ''.'' @ drop 1 cs @ ''e'' @ es)))"

section \<open>Values\<close>

text \<open>
  The values that the parse of a JSON text yields. An object is the list of its own
  properties in the order in which the language enumerates them. The value
  \<open>undefined\<close> is \<open>None\<close> of \<^typ>\<open>'a option\<close>.
\<close>

datatype json =
    JNull
  | JBool bool
  | JNum number
  | JStr string
  | JArr "json list"
  | JObj "(string \<times> json) list"

fun truthy :: "json \<Rightarrow> bool" where
  "truthy JNull = False"
| "truthy (JBool b) = b"
| "truthy (JNum x) = (digits x \<noteq> [])"
| "truthy (JStr s) = (s \<noteq> [])"
| "truthy (JArr xs) = True"
| "truthy (JObj ps) = True"

fun truthy_opt :: "json option \<Rightarrow> bool" where
  "truthy_opt None = False"
| "truthy_opt (Some v) = truthy v"

text \<open>
  Exceptions: \<open>Error m\<close> is made by the code with the message \<open>m\<close>; \<open>NetworkError m\<close> is
  the rejection of a request, with the message \<open>m\<close> that the browser gave it; the others
  are raised by the platform: a text that is not JSON, the read of a property of \<open>null\<close>
  or \<open>undefined\<close>, an object without a primitive value, and \<open>TypeError\<close> for a type error
  while a card is rendered (which operation of a card fails first can depend on the order
  in which the sort of the platform compares, so only the class is kept).

  What the platform decides and the model does not compute is a parameter: the text of
  the message of an exception that the platform raises, and whether the number that a
  string converts to is greater than zero.
\<close>

datatype js_error =
    Error string
  | NetworkError string
  | SyntaxError_JSON string
  | TypeError_read string
  | TypeError_primitive
  | TypeError

record engine =
  error_text :: "js_error \<Rightarrow> string"
  string_gt_zero :: "string \<Rightarrow> bool"

fun message :: "engine \<Rightarrow> js_error \<Rightarrow> string" where
  "message eng (Error m) = m"
| "message eng (NetworkError m) = m"
| "message eng e = error_text eng e"

text \<open>
  Reading the property \<open>k\<close> of a value, for a name \<open>k\<close> that is neither an index nor
  defined by a built-in prototype (every name that the pages read is of this kind).
\<close>

fun get_prop :: "json option \<Rightarrow> string \<Rightarrow> js_error + json option" where
  "get_prop None k = Inl (TypeError_read k)"
| "get_prop (Some JNull) k = Inl (TypeError_read k)"
| "get_prop (Some (JObj ps)) k = Inr (map_of ps k)"
| "get_prop (Some v) k = Inr None"

text \<open>
  The conversion of a value to a string (\<open>ToString\<close>), as a template literal and the
  constructor of an error apply it. An object that has a property \<open>toString\<close> of its own
  cannot be converted, since no value of a JSON text is a function.
\<close>

fun js_toString :: "json \<Rightarrow> js_error + string"
  and join_elements :: "json list \<Rightarrow> js_error + string"
where
  "js_toString JNull = Inr ''null''"
| "js_toString (JBool b) = Inr (if b then ''true'' else ''false'')"
| "js_toString (JNum x) = Inr (Number_toString x)"
| "js_toString (JStr s) = Inr s"
| "js_toString (JArr xs) = join_elements xs"
| "js_toString (JObj ps) =
     (if ''toString'' \<in> set (map fst ps) then Inl TypeError_primitive
      else Inr ''[object Object]'')"
| "join_elements [] = Inr []"
| "join_elements (x # xs) =
     (case (if x = JNull then Inr [] else js_toString x) of
        Inl e \<Rightarrow> Inl e
      | Inr s \<Rightarrow>
          (if xs = [] then Inr s
           else (case join_elements xs of Inl e \<Rightarrow> Inl e | Inr t \<Rightarrow> Inr (s @ '','' @ t))))"

fun toString_opt :: "json option \<Rightarrow> js_error + string" where
  "toString_opt None = Inr ''undefined''"
| "toString_opt (Some v) = js_toString v"

section \<open>Objects\<close>

text \<open>
  The own properties of an object are enumerated with the array indices first, in
  ascending order, and the other names after them in the order of their creation.
\<close>

definition is_digit :: "char \<Rightarrow> bool" where
  "is_digit c = (48 \<le> (of_char c :: nat) \<and> (of_char c :: nat) \<le> 57)"

definition digit_val :: "char \<Rightarrow> nat" where
  "digit_val c = of_char c - 48"

fun lex_less :: "nat list \<Rightarrow> nat list \<Rightarrow> bool" where
  "lex_less [] ys = (ys \<noteq> [])"
| "lex_less (x # xs) [] = False"
| "lex_less (x # xs) (y # ys) = (x < y \<or> (x = y \<and> lex_less xs ys))"

definition index_less :: "nat list \<Rightarrow> nat list \<Rightarrow> bool" where
  "index_less a b = (length a < length b \<or> (length a = length b \<and> lex_less a b))"

text \<open>
  An array index is the canonical decimal text of a natural number below \<open>2\<^sup>3\<^sup>2 - 1\<close>;
  it is held by its digits, which \<open>index_less\<close> compares by value.
\<close>

definition array_index :: "string \<Rightarrow> nat list option" where
  "array_index k =
     (let ds = map digit_val k
      in if k \<noteq> [] \<and> list_all is_digit k \<and> (k = ''0'' \<or> hd k \<noteq> CHR ''0'')
            \<and> index_less ds [4, 2, 9, 4, 9, 6, 7, 2, 9, 5]
         then Some ds else None)"

fun insert_index :: "nat list \<Rightarrow> string \<times> json \<Rightarrow> (string \<times> json) list \<Rightarrow> (string \<times> json) list" where
  "insert_index i kv [] = [kv]"
| "insert_index i kv (p # ps) =
     (case array_index (fst p) of
        Some j \<Rightarrow> if index_less j i then p # insert_index i kv ps else kv # p # ps
      | None \<Rightarrow> kv # p # ps)"

definition obj_set :: "string \<Rightarrow> json \<Rightarrow> (string \<times> json) list \<Rightarrow> (string \<times> json) list" where
  "obj_set k v ps =
     (if k \<in> set (map fst ps) then map (\<lambda>p. if fst p = k then (k, v) else p) ps
      else (case array_index k of
              None \<Rightarrow> ps @ [(k, v)]
            | Some i \<Rightarrow> insert_index i (k, v) ps))"

definition mk_object :: "(string \<times> json) list \<Rightarrow> (string \<times> json) list" where
  "mk_object ms = foldl (\<lambda>ps kv. obj_set (fst kv) (snd kv) ps) [] ms"

section \<open>JSON texts\<close>

subsection \<open>\<open>JSON.stringify\<close>\<close>

definition hex_char :: "nat \<Rightarrow> char" where
  "hex_char d = (if d < 10 then char_of (48 + d) else char_of (87 + d))"

definition quote_char :: "char \<Rightarrow> string" where
  "quote_char c =
     (let n = (of_char c :: nat)
      in if n = 8 then [CHR 0x5C, CHR ''b'']
         else if n = 9 then [CHR 0x5C, CHR ''t'']
         else if n = 10 then [CHR 0x5C, CHR ''n'']
         else if n = 12 then [CHR 0x5C, CHR ''f'']
         else if n = 13 then [CHR 0x5C, CHR ''r'']
         else if n = 34 then [CHR 0x5C, CHR 0x22]
         else if n = 92 then [CHR 0x5C, CHR 0x5C]
         else if n < 32 then
           [CHR 0x5C, CHR ''u'', CHR ''0'', CHR ''0'', hex_char (n div 16), hex_char (n mod 16)]
         else [c])"

definition quote :: "string \<Rightarrow> string" where
  "quote s = CHR 0x22 # concat (map quote_char s) @ [CHR 0x22]"

fun JSON_stringify :: "json \<Rightarrow> string"
  and stringify_elements :: "json list \<Rightarrow> string"
  and stringify_members :: "(string \<times> json) list \<Rightarrow> string"
where
  "JSON_stringify JNull = ''null''"
| "JSON_stringify (JBool b) = (if b then ''true'' else ''false'')"
| "JSON_stringify (JNum x) = Number_toString x"
| "JSON_stringify (JStr s) = quote s"
| "JSON_stringify (JArr xs) = ''['' @ stringify_elements xs @ '']''"
| "JSON_stringify (JObj ps) = ''{'' @ stringify_members ps @ ''}''"
| "stringify_elements [] = []"
| "stringify_elements (x # xs) =
     JSON_stringify x @ (if xs = [] then [] else '','' @ stringify_elements xs)"
| "stringify_members [] = []"
| "stringify_members (p # ps) =
     quote (fst p) @ '':'' @ JSON_stringify (snd p)
       @ (if ps = [] then [] else '','' @ stringify_members ps)"

subsection \<open>\<open>JSON.parse\<close>\<close>

definition is_ws :: "char \<Rightarrow> bool" where
  "is_ws c = ((of_char c :: nat) \<in> {9, 10, 13, 32})"

definition skip_ws :: "string \<Rightarrow> string" where
  "skip_ws cs = dropWhile is_ws cs"

definition hex_val :: "char \<Rightarrow> nat option" where
  "hex_val c =
     (let n = (of_char c :: nat)
      in if 48 \<le> n \<and> n \<le> 57 then Some (n - 48)
         else if 97 \<le> n \<and> n \<le> 102 then Some (n - 87)
         else if 65 \<le> n \<and> n \<le> 70 then Some (n - 55)
         else None)"

definition hex4 :: "string \<Rightarrow> nat option" where
  "hex4 cs =
     (case map hex_val cs of
        [Some a, Some b, Some c, Some d] \<Rightarrow> Some (((a * 16 + b) * 16 + c) * 16 + d)
      | _ \<Rightarrow> None)"

definition unescape :: "char \<Rightarrow> char option" where
  "unescape e =
     (if e = CHR 0x22 \<or> e = CHR 0x5C \<or> e = CHR ''/'' then Some e
      else if e = CHR ''b'' then Some (CHR 0x08)
      else if e = CHR ''f'' then Some (CHR 0x0C)
      else if e = CHR ''n'' then Some (CHR 0x0A)
      else if e = CHR ''r'' then Some (CHR 0x0D)
      else if e = CHR ''t'' then Some (CHR 0x09)
      else None)"

definition cons_result :: "'a \<Rightarrow> ('a list \<times> 'b) option \<Rightarrow> ('a list \<times> 'b) option" where
  "cons_result x r = map_option (\<lambda>(xs, t). (x # xs, t)) r"

text \<open>
  The characters of a string literal after its opening quote, up to the closing quote.
  An escape \<open>\<bsol>uXXXX\<close> of a code unit above 255 is outside the model and refused.
\<close>

fun parse_chars :: "string \<Rightarrow> (string \<times> string) option" where
  "parse_chars [] = None"
| "parse_chars (c # cs) =
     (if (of_char c :: nat) = 34 then Some ([], cs)
      else if (of_char c :: nat) = 92 then
        (case cs of
           [] \<Rightarrow> None
         | e # r \<Rightarrow>
             if e = CHR ''u'' then
               (case hex4 (take 4 r) of
                  None \<Rightarrow> None
                | Some u \<Rightarrow>
                    if u < 256 then cons_result (char_of u) (parse_chars (drop 4 r)) else None)
             else
               (case unescape e of
                  None \<Rightarrow> None
                | Some d \<Rightarrow> cons_result d (parse_chars r)))
      else if (of_char c :: nat) < 32 then None
      else cons_result c (parse_chars cs))"

text \<open>
  A number literal: an integer part without a leading zero, an optional fraction and an
  optional exponent. \<open>mk_number\<close> brings the digits read to the shortest form.
\<close>

definition mk_number :: "bool \<Rightarrow> nat list \<Rightarrow> nat list \<Rightarrow> int \<Rightarrow> number" where
  "mk_number neg ip fp e =
     (let lz = length (takeWhile (\<lambda>d. d = 0) (ip @ fp));
          ds = strip_zeros (dropWhile (\<lambda>d. d = 0) (ip @ fp))
      in if ds = [] then zero_number
         else Number neg ds (int (length ip) + e - int lz))"

definition parse_exponent :: "string \<Rightarrow> (int \<times> string) option" where
  "parse_exponent cs =
     (case cs of
        [] \<Rightarrow> Some (0, cs)
      | c # r \<Rightarrow>
          if c = CHR ''e'' \<or> c = CHR ''E'' then
            (let minus = (r \<noteq> [] \<and> hd r = CHR ''-'');
                 r' = (if r \<noteq> [] \<and> (hd r = CHR ''-'' \<or> hd r = CHR ''+'') then tl r else r);
                 ed = takeWhile is_digit r';
                 v = int (nat_of_digits (map digit_val ed))
             in if ed = [] then None
                else Some (if minus then - v else v, dropWhile is_digit r'))
          else Some (0, cs))"

definition parse_fraction :: "string \<Rightarrow> (nat list \<times> string) option" where
  "parse_fraction cs =
     (case cs of
        [] \<Rightarrow> Some ([], cs)
      | c # r \<Rightarrow>
          if c = CHR ''.'' then
            (let fd = takeWhile is_digit r
             in if fd = [] then None else Some (map digit_val fd, dropWhile is_digit r))
          else Some ([], cs))"

definition parse_number :: "string \<Rightarrow> (number \<times> string) option" where
  "parse_number cs =
     (let neg = (cs \<noteq> [] \<and> hd cs = CHR ''-'');
          cs1 = (if neg then tl cs else cs);
          ip = takeWhile is_digit cs1
      in if ip = [] \<or> (length ip > 1 \<and> hd ip = CHR ''0'') then None
         else
           (case parse_fraction (dropWhile is_digit cs1) of
              None \<Rightarrow> None
            | Some (fp, cs2) \<Rightarrow>
                (case parse_exponent cs2 of
                   None \<Rightarrow> None
                 | Some (e, cs3) \<Rightarrow> Some (mk_number neg (map digit_val ip) fp e, cs3))))"

text \<open>
  The recursive descent over a text. The first argument bounds the number of nested and
  of successive values; \<open>JSON_parse\<close> starts with more than the text has characters.
\<close>

fun parse_value :: "nat \<Rightarrow> string \<Rightarrow> (json \<times> string) option"
  and parse_elements :: "nat \<Rightarrow> string \<Rightarrow> (json list \<times> string) option"
  and parse_members :: "nat \<Rightarrow> string \<Rightarrow> ((string \<times> json) list \<times> string) option"
where
  "parse_value 0 cs = None"
| "parse_value (Suc f) cs =
     (case skip_ws cs of
        [] \<Rightarrow> None
      | c # r \<Rightarrow>
          if c = CHR ''['' then
            (case skip_ws r of
               [] \<Rightarrow> None
             | d # r' \<Rightarrow>
                 if d = CHR '']'' then Some (JArr [], r')
                 else map_option (\<lambda>(vs, t). (JArr vs, t)) (parse_elements f r))
          else if c = CHR ''{'' then
            (case skip_ws r of
               [] \<Rightarrow> None
             | d # r' \<Rightarrow>
                 if d = CHR ''}'' then Some (JObj [], r')
                 else map_option (\<lambda>(ms, t). (JObj (mk_object ms), t)) (parse_members f r))
          else if c = CHR 0x22 then map_option (\<lambda>(s, t). (JStr s, t)) (parse_chars r)
          else if startsWith (c # r) ''true'' then Some (JBool True, drop 4 (c # r))
          else if startsWith (c # r) ''false'' then Some (JBool False, drop 5 (c # r))
          else if startsWith (c # r) ''null'' then Some (JNull, drop 4 (c # r))
          else if c = CHR ''-'' \<or> is_digit c then
            map_option (\<lambda>(x, t). (JNum x, t)) (parse_number (c # r))
          else None)"
| "parse_elements 0 cs = None"
| "parse_elements (Suc f) cs =
     (case parse_value f cs of
        None \<Rightarrow> None
      | Some (v, r) \<Rightarrow>
          (case skip_ws r of
             [] \<Rightarrow> None
           | d # r' \<Rightarrow>
               if d = CHR '','' then cons_result v (parse_elements f r')
               else if d = CHR '']'' then Some ([v], r')
               else None))"
| "parse_members 0 cs = None"
| "parse_members (Suc f) cs =
     (case skip_ws cs of
        [] \<Rightarrow> None
      | q # r \<Rightarrow>
          if q \<noteq> CHR 0x22 then None
          else
            (case parse_chars r of
               None \<Rightarrow> None
             | Some (k, r1) \<Rightarrow>
                 (case skip_ws r1 of
                    [] \<Rightarrow> None
                  | c # r2 \<Rightarrow>
                      if c \<noteq> CHR '':'' then None
                      else
                        (case parse_value f r2 of
                           None \<Rightarrow> None
                         | Some (v, r3) \<Rightarrow>
                             (case skip_ws r3 of
                                [] \<Rightarrow> None
                              | d # r4 \<Rightarrow>
                                  if d = CHR '','' then cons_result (k, v) (parse_members f r4)
                                  else if d = CHR ''}'' then Some ([(k, v)], r4)
                                  else None)))))"

definition JSON_parse :: "string \<Rightarrow> js_error + json" where
  "JSON_parse s =
     (case parse_value (Suc (length s)) s of
        None \<Rightarrow> Inl (SyntaxError_JSON s)
      | Some (v, r) \<Rightarrow> if skip_ws r = [] then Inr v else Inl (SyntaxError_JSON s))"

section \<open>Effects of a page\<close>

datatype console_level = Log | Warn | Err

datatype console_arg = Text string | Status nat | Value json | Thrown js_error

type_synonym console_entry = "console_level \<times> console_arg list"

text \<open>
  \<open>toFixed f x\<close> for a number \<open>0 \<le> x < 10\<^sup>2\<^sup>1\<close> given by its exact value: the integer
  \<open>n\<close> nearest to \<open>x \<times> 10\<^sup>f\<close> (the larger of two), written with \<open>f\<close> decimals.
\<close>

definition toFixed :: "nat \<Rightarrow> rat \<Rightarrow> string" where
  "toFixed f x =
     (let n = nat \<lfloor>x * 10 ^ f + 1 / 2\<rfloor>;
          m = show_nat n;
          m' = replicate (Suc f - length m) (CHR ''0'') @ m;
          k = length m'
      in if f = 0 then m' else take (k - f) m' @ ''.'' @ drop (k - f) m')"

section \<open>The submission page (detection.js)\<close>

definition API_URL :: string where
  "API_URL = ''http://localhost:8000''"

record dicom_file =
  file_name :: string
  file_size :: nat

record request =
  url :: string
  http_method :: string
  form :: "(string \<times> dicom_file) list"

record response =
  status :: nat
  body :: string

definition ok :: "response \<Rightarrow> bool" where
  "ok r = (200 \<le> status r \<and> status r \<le> 299)"

datatype fetch_outcome = Rejected string | Resolved response

record detection_page =
  selectedFile :: "dicom_file option"
  fileNameDisplay :: string
  runButton_disabled :: bool
  loading_active :: bool
  alerts :: "string list"
  console :: "console_entry list"
  requests :: "request list"
  sessionStorage :: "string \<rightharpoonup> string"
  navigations :: "string list"

definition alert :: "string \<Rightarrow> detection_page \<Rightarrow> detection_page" where
  "alert m st = st\<lparr>alerts := alerts st @ [m]\<rparr>"

definition console_write :: "console_level \<Rightarrow> console_arg list \<Rightarrow> detection_page \<Rightarrow> detection_page" where
  "console_write l args st = st\<lparr>console := console st @ [(l, args)]\<rparr>"

definition maxSize :: nat where
  "maxSize = 50 * 1024 * 1024"

definition validateAndDisplayFile :: "dicom_file \<Rightarrow> detection_page \<Rightarrow> detection_page" where
  "validateAndDisplayFile f st =
     (if \<not> endsWith (toLowerCase (file_name f)) ''.dcm'' then
        alert ''Please select a DICOM (.dcm) file'' st
      else if file_size f > maxSize then
        alert ''File size exceeds 50 MB limit'' st
      else
        console_write Log
          [Text ''File selected:'', Text (file_name f),
           Text (''('' @ toFixed 2 (of_nat (file_size f) / 1024 / 1024) @ '' MB)'')]
          (st\<lparr>selectedFile := Some f,
              fileNameDisplay := ''Selected: '' @ file_name f,
              runButton_disabled := False\<rparr>))"

definition handleFileSelect :: "dicom_file list \<Rightarrow> detection_page \<Rightarrow> detection_page" where
  "handleFileSelect files st = (case files of [] \<Rightarrow> st | f # _ \<Rightarrow> validateAndDisplayFile f st)"

definition showLoading :: "detection_page \<Rightarrow> detection_page" where
  "showLoading st = st\<lparr>loading_active := True\<rparr>"

definition hideLoading :: "detection_page \<Rightarrow> detection_page" where
  "hideLoading st = st\<lparr>loading_active := False\<rparr>"

text \<open>
  The body of the \<open>try\<close> block, from the arrival of the outcome of the request: the state
  at its end, or the exception thrown with the state reached by then.
\<close>

definition error_detail :: "json \<Rightarrow> js_error + string" where
  "error_detail errorData =
     (case get_prop (Some errorData) ''detail'' of
        Inl e \<Rightarrow> Inl e
      | Inr d \<Rightarrow>
          (case d of
             None \<Rightarrow> Inr ''Prediction failed''
           | Some x \<Rightarrow> if truthy x then js_toString x else Inr ''Prediction failed''))"

definition receive :: "fetch_outcome \<Rightarrow> detection_page \<Rightarrow> js_error \<times> detection_page + detection_page" where
  "receive outcome st =
     (case outcome of
        Rejected m \<Rightarrow> Inl (NetworkError m, st)
      | Resolved resp \<Rightarrow>
          (let st1 = console_write Log [Text ''Response status:'', Status (status resp)] st
           in if \<not> ok resp then
                (case JSON_parse (body resp) of
                   Inl e \<Rightarrow> Inl (e, st1)
                 | Inr errorData \<Rightarrow>
                     (case error_detail errorData of
                        Inl e \<Rightarrow> Inl (e, st1)
                      | Inr m \<Rightarrow> Inl (Error m, st1)))
              else
                (case JSON_parse (body resp) of
                   Inl e \<Rightarrow> Inl (e, st1)
                 | Inr result \<Rightarrow>
                     (let st2 = console_write Log [Text ''Detection result:'', Value result] st1;
                          st3 = st2\<lparr>sessionStorage :=
                                  (sessionStorage st2)(''detectionResult'' \<mapsto> JSON_stringify result)\<rparr>
                      in Inr (st3\<lparr>navigations := navigations st3 @ [''results.html'']\<rparr>)))))"

text \<open>The \<open>catch\<close> block.\<close>

definition errorMessage :: "engine \<Rightarrow> js_error \<Rightarrow> string" where
  "errorMessage eng e =
     ''An error occurred during detection. '' @
       (if includes_str (message eng e) ''Failed to fetch''
        then ''Please ensure the backend server is running on http://localhost:8000''
        else message eng e)"

definition report :: "engine \<Rightarrow> js_error \<Rightarrow> detection_page \<Rightarrow> detection_page" where
  "report eng e st =
     (let st1 = console_write Err [Text ''Error:'', Thrown e] st;
          st2 = hideLoading st1;
          st3 = st2\<lparr>runButton_disabled := False\<rparr>
      in alert (errorMessage eng e) st3)"

definition predict_request :: "dicom_file \<Rightarrow> request" where
  "predict_request f =
     \<lparr>url = API_URL @ ''/predict'', http_method = ''POST'', form = [(''file'', f)]\<rparr>"

definition runDetection :: "engine \<Rightarrow> (request \<Rightarrow> fetch_outcome) \<Rightarrow> detection_page \<Rightarrow> detection_page" where
  "runDetection eng fetch st =
     (case selectedFile st of
        None \<Rightarrow> alert ''Please select a DICOM file'' st
      | Some f \<Rightarrow>
          (let st1 = showLoading (st\<lparr>runButton_disabled := True\<rparr>);
               st2 = console_write Log [Text ''Sending request to API...''] st1;
               st3 = st2\<lparr>requests := requests st2 @ [predict_request f]\<rparr>
           in case receive (fetch (predict_request f)) st3 of
                Inr st' \<Rightarrow> st'
              | Inl (e, st') \<Rightarrow> report eng e st'))"

section \<open>The result page (results-multimodel.js)\<close>

definition DETECTION_THRESHOLD :: rat where
  "DETECTION_THRESHOLD = 50"

record model_config =
  title :: string
  badge :: string
  description :: string

definition MODEL_CONFIG :: "(string \<times> model_config) list" where
  "MODEL_CONFIG =
     [(''model_a'', \<lparr>title = ''EfficientNet V2'', badge = ''Primary'',
                      description = ''First detection model''\<rparr>),
      (''model_b'', \<lparr>title = ''ConvNext'', badge = ''Secondary'',
                      description = ''Second detection model''\<rparr>),
      (''model_c'', \<lparr>title = ''Hybrid Model'', badge = ''Validation'',
                      description = ''Third detection model''\<rparr>)]"

text \<open>
  A card is kept as the values that fill the template of its markup: the title and the
  badge, whether the classes of the ensemble are set, the headline with the badges of the
  detected labels, and one row for each score with its label, the score that sets the
  width of the bar, and whether the marker and the class of a detection are set. The
  text of the score with one decimal rounds the binary value of the number and is not
  part of the model.
\<close>

datatype headline = Hemorrhage_Detected | No_Hemorrhage_Detected

record score_row =
  label :: string
  score :: number
  isDetected :: bool

record model_card =
  card_title :: string
  card_badge :: string
  isEnsemble :: bool
  summary :: headline
  detected_badges :: "string list"
  rows :: "score_row list"

record results_page =
  r_sessionStorage :: "string \<rightharpoonup> string"
  r_alerts :: "string list"
  r_console :: "console_entry list"
  r_navigations :: "string list"
  original_src :: "string option"
  processed_src :: "string option"
  comparison :: "model_card list option"
  animation_pending :: bool

text \<open>
  \<open>Array.prototype.sort\<close> is stable; for a comparison that orders the elements
  consistently its result is the sorted arrangement that keeps equal elements in their
  order, which insertion from the right computes.
\<close>

fun insert_sorted :: "('a \<Rightarrow> 'a \<Rightarrow> rat) \<Rightarrow> 'a \<Rightarrow> 'a list \<Rightarrow> 'a list" where
  "insert_sorted cmp x [] = [x]"
| "insert_sorted cmp x (y # ys) =
     (if cmp x y \<le> 0 then x # y # ys else y # insert_sorted cmp x ys)"

definition js_sort :: "('a \<Rightarrow> 'a \<Rightarrow> rat) \<Rightarrow> 'a list \<Rightarrow> 'a list" where
  "js_sort cmp xs = foldr (insert_sorted cmp) xs []"

fun Object_entries :: "json \<Rightarrow> js_error + (string \<times> json) list" where
  "Object_entries JNull = Inl TypeError"
| "Object_entries (JObj ps) = Inr ps"
| "Object_entries (JArr xs) = Inr (zip (map show_nat [0..<length xs]) xs)"
| "Object_entries (JStr s) = Inr (zip (map show_nat [0..<length s]) (map (\<lambda>c. JStr [c]) s))"
| "Object_entries v = Inr []"

fun numeric_entry :: "string \<times> json \<Rightarrow> (string \<times> number) option" where
  "numeric_entry (k, JNum x) = Some (k, x)"
| "numeric_entry (k, v) = None"

text \<open>
  The rows of the scores. A score that is not a number has no method \<open>toFixed\<close>, so the
  rendering of its row throws; the sort compares numbers only when every score is one.
\<close>

definition by_score :: "string \<times> number \<Rightarrow> string \<times> number \<Rightarrow> rat" where
  "by_score a b = number_value (snd b) - number_value (snd a)"

definition score_row_of :: "string \<times> number \<Rightarrow> score_row" where
  "score_row_of e =
     \<lparr>label = fst e, score = snd e, isDetected = (number_value (snd e) \<ge> DETECTION_THRESHOLD)\<rparr>"

definition score_rows :: "(string \<times> json) list \<Rightarrow> js_error + score_row list" where
  "score_rows entries =
     (case those (map numeric_entry entries) of
        None \<Rightarrow> Inl TypeError
      | Some es \<Rightarrow> Inr (map score_row_of (js_sort by_score es)))"

text \<open>Whether \<open>v > 0\<close> holds, or the conversion of \<open>v\<close> to a number throws.\<close>

fun gt_zero :: "engine \<Rightarrow> json \<Rightarrow> js_error + bool" where
  "gt_zero eng JNull = Inr False"
| "gt_zero eng (JBool b) = Inr b"
| "gt_zero eng (JNum x) = Inr (number_value x > 0)"
| "gt_zero eng (JStr s) = Inr (string_gt_zero eng s)"
| "gt_zero eng v =
     (case js_toString v of Inl e \<Rightarrow> Inl TypeError | Inr s \<Rightarrow> Inr (string_gt_zero eng s))"

fun all_strings :: "json list \<Rightarrow> js_error + string list" where
  "all_strings [] = Inr []"
| "all_strings (x # xs) =
     (case js_toString x of
        Inl e \<Rightarrow> Inl TypeError
      | Inr s \<Rightarrow> (case all_strings xs of Inl e \<Rightarrow> Inl e | Inr ss \<Rightarrow> Inr (s # ss)))"

text \<open>
  The headline of a card and the badges under it, from the value of \<open>detected\<close> alone:
  \<open>detected.length > 0\<close> decides, and with it \<open>detected.map\<close> is called, which only an
  array has.
\<close>

fun detected_summary :: "engine \<Rightarrow> json \<Rightarrow> js_error + headline \<times> string list" where
  "detected_summary eng JNull = Inl TypeError"
| "detected_summary eng (JArr xs) =
     (if length xs > 0 then
        (case all_strings xs of
           Inl e \<Rightarrow> Inl e
         | Inr ss \<Rightarrow> Inr (Hemorrhage_Detected, ss))
      else Inr (No_Hemorrhage_Detected, []))"
| "detected_summary eng (JStr s) =
     (if length s > 0 then Inl TypeError else Inr (No_Hemorrhage_Detected, []))"
| "detected_summary eng (JObj ps) =
     (case map_of ps ''length'' of
        None \<Rightarrow> Inr (No_Hemorrhage_Detected, [])
      | Some v \<Rightarrow>
          (case gt_zero eng v of
             Inl e \<Rightarrow> Inl e
           | Inr b \<Rightarrow> if b then Inl TypeError else Inr (No_Hemorrhage_Detected, [])))"
| "detected_summary eng v = Inr (No_Hemorrhage_Detected, [])"

text \<open>\<open>v || d\<close>, and the value of \<open>v\<close> when it is truthy.\<close>

definition or_default :: "json option \<Rightarrow> json \<Rightarrow> json" where
  "or_default v d = (case v of None \<Rightarrow> d | Some x \<Rightarrow> if truthy x then x else d)"

definition if_truthy :: "json option \<Rightarrow> json option" where
  "if_truthy v = (case v of None \<Rightarrow> None | Some x \<Rightarrow> if truthy x then Some x else None)"

definition renderModelCard :: "engine \<Rightarrow> string \<Rightarrow> json \<Rightarrow> model_config \<Rightarrow> js_error + model_card" where
  "renderModelCard eng modelKey modelData config =
     (case get_prop (Some modelData) ''detected'' of
        Inl e \<Rightarrow> Inl TypeError
      | Inr d \<Rightarrow>
          (case get_prop (Some modelData) ''confidences'' of
             Inl e \<Rightarrow> Inl TypeError
           | Inr c \<Rightarrow>
               (let detected = or_default d (JArr []);
                    confidences = or_default c (JObj [])
                in case Object_entries confidences of
                     Inl e \<Rightarrow> Inl e
                   | Inr entries \<Rightarrow>
                       (case score_rows entries of
                          Inl e \<Rightarrow> Inl e
                        | Inr sortedConfidences \<Rightarrow>
                            (case detected_summary eng detected of
                               Inl e \<Rightarrow> Inl e
                             | Inr (h, bs) \<Rightarrow>
                                 Inr \<lparr>card_title = title config,
                                      card_badge = badge config,
                                      isEnsemble = (modelKey = ''ensemble''),
                                      summary = h,
                                      detected_badges = bs,
                                      rows = sortedConfidences\<rparr>)))))"

text \<open>
  The loop of \<open>displayModelComparison\<close> over the entries of \<open>MODEL_CONFIG\<close>, with the
  markup collected so far.
\<close>

fun render_models ::
  "engine \<Rightarrow> json option \<Rightarrow> (string \<times> model_config) list \<Rightarrow> model_card list \<Rightarrow> results_page
     \<Rightarrow> js_error \<times> results_page + model_card list \<times> results_page" where
  "render_models eng predictions [] html st = Inr (html, st)"
| "render_models eng predictions ((modelKey, config) # rest) html st =
     (case get_prop predictions modelKey of
        Inl e \<Rightarrow> Inl (TypeError, st)
      | Inr modelData \<Rightarrow>
          (case if_truthy modelData of
             None \<Rightarrow>
               render_models eng predictions rest html
                 (st\<lparr>r_console := r_console st @ [(Warn, [Text (''No data for '' @ modelKey)])]\<rparr>)
           | Some m \<Rightarrow>
               (case renderModelCard eng modelKey m config of
                  Inl e \<Rightarrow> Inl (e, st)
                | Inr c \<Rightarrow> render_models eng predictions rest (html @ [c]) st)))"

definition displayModelComparison :: "engine \<Rightarrow> json \<Rightarrow> results_page \<Rightarrow> js_error \<times> results_page + results_page" where
  "displayModelComparison eng results st =
     (case get_prop (Some results) ''predictions'' of
        Inl e \<Rightarrow> Inl (TypeError, st)
      | Inr predictions \<Rightarrow>
          (case render_models eng predictions MODEL_CONFIG [] st of
             Inl f \<Rightarrow> Inl f
           | Inr (html, st1) \<Rightarrow> Inr (st1\<lparr>comparison := Some html, animation_pending := True\<rparr>)))"

definition image_url :: "json \<Rightarrow> string \<Rightarrow> js_error + string" where
  "image_url results k =
     (case get_prop (Some results) k of
        Inl e \<Rightarrow> Inl TypeError
      | Inr v \<Rightarrow> (case toString_opt v of Inl e \<Rightarrow> Inl TypeError | Inr s \<Rightarrow> Inr (API_URL @ s)))"

definition displayImages :: "json \<Rightarrow> results_page \<Rightarrow> js_error \<times> results_page + results_page" where
  "displayImages results st =
     (case image_url results ''original_image'' of
        Inl e \<Rightarrow> Inl (e, st)
      | Inr u \<Rightarrow>
          (let st1 = st\<lparr>original_src := Some u\<rparr>
           in case image_url results ''processed_image'' of
                Inl e \<Rightarrow> Inl (e, st1)
              | Inr w \<Rightarrow> Inr (st1\<lparr>processed_src := Some w\<rparr>)))"

definition load_failed :: "js_error \<Rightarrow> results_page \<Rightarrow> results_page" where
  "load_failed e st =
     st\<lparr>r_console := r_console st @ [(Err, [Text ''Error parsing results:'', Thrown e])],
        r_alerts := r_alerts st @ [''Error loading results. Please try again.''],
        r_navigations := r_navigations st @ [''detection.html'']\<rparr>"

definition init :: "engine \<Rightarrow> results_page \<Rightarrow> results_page" where
  "init eng st =
     (case r_sessionStorage st ''detectionResult'' of
        None \<Rightarrow>
          st\<lparr>r_alerts := r_alerts st @ [''No detection results found. Please upload a DICOM file first.''],
             r_navigations := r_navigations st @ [''detection.html'']\<rparr>
      | Some resultsJson \<Rightarrow>
          if resultsJson = [] then
            st\<lparr>r_alerts := r_alerts st @ [''No detection results found. Please upload a DICOM file first.''],
               r_navigations := r_navigations st @ [''detection.html'']\<rparr>
          else
            (case JSON_parse resultsJson of
               Inl e \<Rightarrow> load_failed e st
             | Inr results \<Rightarrow>
                 (let st1 = st\<lparr>r_console := r_console st @
                                [(Log, [Text ''Loaded multi-model results:'', Value results])]\<rparr>
                  in case displayImages results st1 of
                       Inl (e, st2) \<Rightarrow> load_failed e st2
                     | Inr st2 \<Rightarrow>
                         (case displayModelComparison eng results st2 of
                            Inl (e, st3) \<Rightarrow> load_failed e st3
                          | Inr st3 \<Rightarrow> st3))))"

section \<open>Well-formed values\<close>

text \<open>
  The values of the language, among the terms of the model: a number in its shortest
  form (digits below ten, neither a leading nor a trailing zero, and zero without sign),
  and an object with distinct names in the order of enumeration.
\<close>

definition number_ok :: "number \<Rightarrow> bool" where
  "number_ok x =
     (list_all (\<lambda>d. d < 10) (digits x)
      \<and> (if digits x = [] then \<not> negative x \<and> point x = 0
         else hd (digits x) \<noteq> 0 \<and> last (digits x) \<noteq> 0))"

definition index_before :: "string \<Rightarrow> string \<Rightarrow> bool" where
  "index_before k k' =
     (case array_index k' of
        None \<Rightarrow> True
      | Some j \<Rightarrow> (case array_index k of None \<Rightarrow> False | Some i \<Rightarrow> index_less i j))"

definition object_ok :: "string list \<Rightarrow> bool" where
  "object_ok ks = (distinct ks \<and> sorted_wrt index_before ks)"

fun json_ok :: "json \<Rightarrow> bool"
  and elements_ok :: "json list \<Rightarrow> bool"
  and members_ok :: "(string \<times> json) list \<Rightarrow> bool"
where
  "json_ok JNull = True"
| "json_ok (JBool b) = True"
| "json_ok (JNum x) = number_ok x"
| "json_ok (JStr s) = True"
| "json_ok (JArr xs) = elements_ok xs"
| "json_ok (JObj ps) = (object_ok (map fst ps) \<and> members_ok ps)"
| "elements_ok [] = True"
| "elements_ok (x # xs) = (json_ok x \<and> elements_ok xs)"
| "members_ok [] = True"
| "members_ok (p # ps) = (json_ok (snd p) \<and> members_ok ps)"




section \<open>Inputs of the examples\<close>

text \<open>
  The parameters and the pages at which the examples below evaluate the code. The
  messages are those that V8 writes: for the parse of the empty text, for the read of a
  property of \<open>null\<close>, and for an object without a primitive value.
\<close>

definition example_engine :: engine where
  "example_engine =
     \<lparr>error_text =
        (\<lambda>e. case e of
               SyntaxError_JSON s \<Rightarrow> ''Unexpected end of JSON input''
             | TypeError_read k \<Rightarrow>
                 ''Cannot read properties of null (reading '' @ [CHR 0x27] @ k @ [CHR 0x27] @ '')''
             | TypeError_primitive \<Rightarrow> ''Cannot convert object to primitive value''
             | _ \<Rightarrow> []),
      string_gt_zero = (\<lambda>s. False)\<rparr>"


definition example_results_page :: "string option \<Rightarrow> results_page" where
  "example_results_page stored =
     \<lparr>r_sessionStorage = (\<lambda>k. if k = ''detectionResult'' then stored else None),
      r_alerts = [], r_console = [], r_navigations = [],
      original_src = None, processed_src = None, comparison = None,
      animation_pending = False\<rparr>"


definition example_config :: model_config where
  "example_config = \<lparr>title = ''EfficientNet V2'', badge = ''Primary'',
                      description = ''First detection model''\<rparr>"

section \<open>The parse of the text of a value\<close>

subsection \<open>Strings\<close>

lemma char_of_code: "(of_char c :: nat) = n \<Longrightarrow> c = char_of n"
  by (metis char_of_char)


lemma parse_chars_escape:
  "unescape e = Some d \<Longrightarrow> e \<noteq> CHR ''u'' \<Longrightarrow>
     parse_chars (CHR 0x5C # e # cs) = cons_result d (parse_chars cs)"
  by simp




subsection \<open>Digits\<close>















subsection \<open>Decimal numerals\<close>






subsection \<open>The parts of a number literal\<close>







subsection \<open>The shortest form\<close>






subsection \<open>A number and its text\<close>

















subsection \<open>The properties of an object\<close>






subsection \<open>The first character of a text\<close>

lemma skip_ws_first: "t \<noteq> [] \<Longrightarrow> \<not> is_ws (hd t) \<Longrightarrow> skip_ws (t @ cs) = t @ cs"
  by (cases t) (simp_all add: skip_ws_def)






subsection \<open>The values without parts\<close>






subsection \<open>The values with parts\<close>









subsection \<open>A value and its text\<close>




subsection \<open>The numbers of a parse\<close>











subsection \<open>The order of the indices\<close>









subsection \<open>The properties that a parse sets\<close>










lemma elements_ok_iff: "elements_ok xs \<longleftrightarrow> (\<forall>x \<in> set xs. json_ok x)"
  by (induction xs) auto




subsection \<open>The values of a parse\<close>




subsection \<open>The bound of the descent\<close>

lemma length_skip_ws: "length (skip_ws cs) \<le> length cs"
  by (simp add: skip_ws_def length_dropWhile_le)

lemma skip_ws_shorter: "skip_ws cs = c # t \<Longrightarrow> length t < length cs"
  using length_skip_ws [of cs] by simp

lemma parse_chars_shorter: "parse_chars cs = Some (s, r) \<Longrightarrow> length r < length cs"
proof (induction cs arbitrary: s rule: parse_chars.induct)
  case 1
  then show ?case by simp
next
  case (2 c cs)
  show ?case
  proof (cases "(of_char c :: nat) = 34")
    case True
    with "2.prems" show ?thesis by simp
  next
    case False
    note not_quote = this
    show ?thesis
    proof (cases "(of_char c :: nat) = 92")
      case True
      with "2.prems" not_quote obtain e t where et: "cs = e # t"
        by (auto split: list.splits)
      show ?thesis
      proof (cases "e = CHR ''u''")
        case True
        with "2.prems" not_quote \<open>of_char c = 92\<close> et obtain u a where
          u: "hex4 (take 4 t) = Some u" "u < 256" and a: "parse_chars (drop 4 t) = Some (a, r)"
          by (auto simp: cons_result_def split: option.splits if_splits)
        have "length r < length (drop 4 t)"
          by (rule "2.IH"(1) [OF not_quote \<open>of_char c = 92\<close> et True u a])
        with et show ?thesis by simp
      next
        case False
        with "2.prems" not_quote \<open>of_char c = 92\<close> et obtain d a where
          d: "unescape e = Some d" and a: "parse_chars t = Some (a, r)"
          by (auto simp: cons_result_def split: option.splits)
        have "length r < length t"
          by (rule "2.IH"(2) [OF not_quote \<open>of_char c = 92\<close> et False d a])
        with et show ?thesis by simp
      qed
    next
      case False
      with "2.prems" not_quote obtain a where
        c: "\<not> (of_char c :: nat) < 32" and a: "parse_chars cs = Some (a, r)"
        by (auto simp: cons_result_def split: if_splits)
      have "length r < length cs"
        by (rule "2.IH"(3) [OF not_quote False c a])
      then show ?thesis by simp
    qed
  qed
qed

lemma parse_fraction_shorter: "parse_fraction cs = Some (fp, r) \<Longrightarrow> length r \<le> length cs"
  by (auto simp: parse_fraction_def Let_def split: list.splits if_splits
      intro: le_trans [OF length_dropWhile_le])

lemma parse_exponent_shorter:
  assumes "parse_exponent cs = Some (e, r)"
  shows "length r \<le> length cs"
proof (cases cs)
  case Nil
  with assms show ?thesis by (simp add: parse_exponent_def)
next
  case (Cons c t)
  show ?thesis
  proof (cases "c = CHR ''e'' \<or> c = CHR ''E''")
    case True
    let ?t' = "if t \<noteq> [] \<and> (hd t = CHR ''-'' \<or> hd t = CHR ''+'') then tl t else t"
    from assms Cons True have "r = dropWhile is_digit ?t'"
      by (auto simp: parse_exponent_def Let_def split: if_splits)
    then have "length r \<le> length ?t'" by (simp add: length_dropWhile_le)
    also have "\<dots> \<le> length t" by simp
    finally show ?thesis using Cons by simp
  next
    case False
    with assms Cons show ?thesis by (auto simp: parse_exponent_def)
  qed
qed

lemma dropWhile_shorter: "takeWhile P xs \<noteq> [] \<Longrightarrow> length (dropWhile P xs) < length xs"
  by (cases xs) (auto simp: less_Suc_eq_le length_dropWhile_le split: if_splits)

lemma parse_number_shorter:
  assumes "parse_number cs = Some (x, r)"
  shows "length r < length cs"
proof -
  let ?cs1 = "if cs \<noteq> [] \<and> hd cs = CHR ''-'' then tl cs else cs"
  from assms obtain fp cs2 e where
    ip: "takeWhile is_digit ?cs1 \<noteq> []"
    and f: "parse_fraction (dropWhile is_digit ?cs1) = Some (fp, cs2)"
    and x: "parse_exponent cs2 = Some (e, r)"
    by (auto simp: parse_number_def Let_def split: if_splits option.splits prod.splits)
  have "length r \<le> length cs2" by (rule parse_exponent_shorter [OF x])
  also have "\<dots> \<le> length (dropWhile is_digit ?cs1)" by (rule parse_fraction_shorter [OF f])
  also have "\<dots> < length ?cs1" by (rule dropWhile_shorter [OF ip])
  also have "\<dots> \<le> length cs" by simp
  finally show ?thesis .
qed

lemma parse_atom_shorter:
  assumes "parse_value (Suc f) cs = Some (v, r)" and "skip_ws cs = c # t"
    and "c \<noteq> CHR ''[''" and "c \<noteq> CHR ''{''"
  shows "length r < length cs"
proof -
  have l: "length (c # t) \<le> length cs"
    using length_skip_ws [of cs] assms(2) by simp
  from assms consider s where "parse_chars t = Some (s, r)"
    | "r = drop 4 (c # t)" | "r = drop 5 (c # t)"
    | x where "parse_number (c # t) = Some (x, r)"
    by (auto split: if_splits)
  then have "length r < length (c # t)"
  proof cases
    case 1
    then show ?thesis using parse_chars_shorter by fastforce
  next
    case 2
    then show ?thesis by simp
  next
    case 3
    then show ?thesis by simp
  next
    case 4
    then show ?thesis by (rule parse_number_shorter)
  qed
  with l show ?thesis by simp
qed

lemma parse_atom_fuel:
  assumes "skip_ws cs = c # t" and "c \<noteq> CHR ''[''" and "c \<noteq> CHR ''{''"
  shows "parse_value (Suc g) cs = parse_value (Suc f) cs"
  using assms by simp

lemma parse_fuel:
  "parse_value f cs = Some (v, r) \<Longrightarrow>
     length r < length cs \<and> (\<forall>g. length cs - length r \<le> g \<longrightarrow> parse_value g cs = Some (v, r))"
  "parse_elements f cs = Some (vs, r) \<Longrightarrow>
     length r < length cs \<and> (\<forall>g. length cs - length r \<le> g \<longrightarrow> parse_elements g cs = Some (vs, r))"
  "parse_members f cs = Some (ms, r) \<Longrightarrow>
     length r < length cs \<and> (\<forall>g. length cs - length r \<le> g \<longrightarrow> parse_members g cs = Some (ms, r))"
proof (induction f cs and f cs and f cs arbitrary: v r and vs r and ms r
    rule: parse_value_parse_elements_parse_members.induct)
  case (1 cs)
  then show ?case by simp
next
  case (2 f cs)
  from "2.prems" obtain c t where ct: "skip_ws cs = c # t"
    by (auto split: list.splits)
  have tc: "length t < length cs" by (rule skip_ws_shorter [OF ct])
  show ?case
  proof (cases "c = CHR ''[''")
    case True
    with "2.prems" ct obtain d t' where dt: "skip_ws t = d # t'"
      by (auto split: list.splits)
    have tt: "length t' < length t" by (rule skip_ws_shorter [OF dt])
    show ?thesis
    proof (cases "d = CHR '']''")
      case True
      with "2.prems" ct dt \<open>c = CHR ''[''\<close> have v: "v = JArr []" "r = t'" by auto
      have "parse_value g cs = Some (v, r)" if "length cs - length r \<le> g" for g
      proof -
        from that tc tt v obtain g' where "g = Suc g'" by (cases g) auto
        with ct dt True \<open>c = CHR ''[''\<close> v show ?thesis by simp
      qed
      with tc tt v show ?thesis by simp
    next
      case False
      with "2.prems" ct dt \<open>c = CHR ''[''\<close> obtain xs where
        pe: "parse_elements f t = Some (xs, r)" and v: "v = JArr xs"
        by auto
      from "2.IH"(1) [OF ct \<open>c = CHR ''[''\<close> dt False pe]
      have ih: "length r < length t"
        "\<And>g. length t - length r \<le> g \<Longrightarrow> parse_elements g t = Some (xs, r)"
        by simp_all
      have "parse_value g cs = Some (v, r)" if "length cs - length r \<le> g" for g
      proof -
        from that tc ih(1) obtain g' where g: "g = Suc g'" by (cases g) auto
        with that tc have "length t - length r \<le> g'" by simp
        then have "parse_elements g' t = Some (xs, r)" by (rule ih(2))
        with g ct dt False \<open>c = CHR ''[''\<close> v show ?thesis by simp
      qed
      with tc ih(1) show ?thesis by simp
    qed
  next
    case False
    note not_array = this
    show ?thesis
    proof (cases "c = CHR ''{''")
      case True
      with "2.prems" ct not_array obtain d t' where dt: "skip_ws t = d # t'"
        by (auto split: list.splits)
      have tt: "length t' < length t" by (rule skip_ws_shorter [OF dt])
      show ?thesis
      proof (cases "d = CHR ''}''")
        case True
        with "2.prems" ct dt not_array \<open>c = CHR ''{''\<close> have v: "v = JObj []" "r = t'" by auto
        have "parse_value g cs = Some (v, r)" if "length cs - length r \<le> g" for g
        proof -
          from that tc tt v obtain g' where "g = Suc g'" by (cases g) auto
          with ct dt True not_array \<open>c = CHR ''{''\<close> v show ?thesis by simp
        qed
        with tc tt v show ?thesis by simp
      next
        case False
        with "2.prems" ct dt not_array \<open>c = CHR ''{''\<close> obtain ps where
          pm: "parse_members f t = Some (ps, r)" and v: "v = JObj (mk_object ps)"
          by auto
        from "2.IH"(2) [OF ct not_array \<open>c = CHR ''{''\<close> dt False pm]
        have ih: "length r < length t"
          "\<And>g. length t - length r \<le> g \<Longrightarrow> parse_members g t = Some (ps, r)"
          by simp_all
        have "parse_value g cs = Some (v, r)" if "length cs - length r \<le> g" for g
        proof -
          from that tc ih(1) obtain g' where g: "g = Suc g'" by (cases g) auto
          with that tc have "length t - length r \<le> g'" by simp
          then have "parse_members g' t = Some (ps, r)" by (rule ih(2))
          with g ct dt False not_array \<open>c = CHR ''{''\<close> v show ?thesis by simp
        qed
        with tc ih(1) show ?thesis by simp
      qed
    next
      case False
      have s: "length r < length cs"
        by (rule parse_atom_shorter [OF "2.prems" ct not_array False])
      have "parse_value g cs = Some (v, r)" if "length cs - length r \<le> g" for g
      proof -
        from that s obtain g' where "g = Suc g'" by (cases g) auto
        with "2.prems" parse_atom_fuel [OF ct not_array False, of g' f] show ?thesis by simp
      qed
      with s show ?thesis by simp
    qed
  qed
next
  case (3 cs)
  then show ?case by simp
next
  case (4 f cs)
  from "4.prems" obtain x t where pv: "parse_value f cs = Some (x, t)"
    by (auto split: option.splits)
  with "4.prems" obtain d t' where dt: "skip_ws t = d # t'"
    by (auto split: list.splits)
  have tt: "length t' < length t" by (rule skip_ws_shorter [OF dt])
  from "4.IH"(1) [OF pv]
  have ih1: "length t < length cs"
    "\<And>g. length cs - length t \<le> g \<Longrightarrow> parse_value g cs = Some (x, t)"
    by simp_all
  show ?case
  proof (cases "d = CHR '',''")
    case True
    with "4.prems" pv dt obtain vs' where
      pe: "parse_elements f t' = Some (vs', r)" and vs: "vs = x # vs'"
      by (auto simp: cons_result_def)
    from "4.IH"(2) [OF pv refl dt True pe]
    have ih2: "length r < length t'"
      "\<And>g. length t' - length r \<le> g \<Longrightarrow> parse_elements g t' = Some (vs', r)"
      by simp_all
    have "parse_elements g cs = Some (vs, r)" if "length cs - length r \<le> g" for g
    proof -
      from that tt ih1(1) ih2(1) obtain g' where g: "g = Suc g'" by (cases g) auto
      with that tt ih1(1) ih2(1) have "length cs - length t \<le> g'" "length t' - length r \<le> g'"
        by simp_all
      then have "parse_value g' cs = Some (x, t)" "parse_elements g' t' = Some (vs', r)"
        by (simp_all add: ih1(2) ih2(2))
      with g dt True vs show ?thesis by (simp add: cons_result_def)
    qed
    with tt ih1(1) ih2(1) show ?thesis by simp
  next
    case False
    with "4.prems" pv dt have v: "d = CHR '']''" "vs = [x]" "r = t'"
      by (auto split: if_splits)
    have "parse_elements g cs = Some (vs, r)" if "length cs - length r \<le> g" for g
    proof -
      from that tt ih1(1) v obtain g' where g: "g = Suc g'" by (cases g) auto
      with that tt ih1(1) v have "length cs - length t \<le> g'" by simp
      then have "parse_value g' cs = Some (x, t)" by (rule ih1(2))
      with g dt v show ?thesis by simp
    qed
    with tt ih1(1) v show ?thesis by simp
  qed
next
  case (5 cs)
  then show ?case by simp
next
  case (6 f cs)
  from "6.prems" obtain q t where qt: "skip_ws cs = q # t"
    by (auto split: list.splits)
  with "6.prems" have q: "\<not> q \<noteq> CHR 0x22"
    by (auto split: if_splits)
  with "6.prems" qt obtain k t1 where pk: "parse_chars t = Some (k, t1)"
    by (auto split: option.splits)
  with "6.prems" qt q obtain c t2 where ct: "skip_ws t1 = c # t2"
    by (auto split: list.splits)
  with "6.prems" qt q pk have c: "\<not> c \<noteq> CHR '':''"
    by (auto split: if_splits)
  with "6.prems" qt q pk ct obtain x t3 where pv: "parse_value f t2 = Some (x, t3)"
    by (auto split: option.splits)
  with "6.prems" qt q pk ct c obtain d t4 where dt: "skip_ws t3 = d # t4"
    by (auto split: list.splits)
  have l: "length t < length cs" "length t1 < length t" "length t2 < length t1"
    "length t4 < length t3"
    by (rule skip_ws_shorter [OF qt], rule parse_chars_shorter [OF pk],
        rule skip_ws_shorter [OF ct], rule skip_ws_shorter [OF dt])
  from "6.IH"(1) [OF qt q pk refl ct c pv]
  have ih1: "length t3 < length t2"
    "\<And>g. length t2 - length t3 \<le> g \<Longrightarrow> parse_value g t2 = Some (x, t3)"
    by simp_all
  show ?case
  proof (cases "d = CHR '',''")
    case True
    with "6.prems" qt q pk ct c pv dt obtain ms' where
      pm: "parse_members f t4 = Some (ms', r)" and ms: "ms = (k, x) # ms'"
      by (auto simp: cons_result_def)
    from "6.IH"(2) [OF qt q pk refl ct c pv refl dt True pm]
    have ih2: "length r < length t4"
      "\<And>g. length t4 - length r \<le> g \<Longrightarrow> parse_members g t4 = Some (ms', r)"
      by simp_all
    have "parse_members g cs = Some (ms, r)" if "length cs - length r \<le> g" for g
    proof -
      from that l ih1(1) ih2(1) obtain g' where g: "g = Suc g'" by (cases g) auto
      with that l ih1(1) ih2(1) have "length t2 - length t3 \<le> g'" "length t4 - length r \<le> g'"
        by simp_all
      then have "parse_value g' t2 = Some (x, t3)" "parse_members g' t4 = Some (ms', r)"
        by (simp_all add: ih1(2) ih2(2))
      with g qt q pk ct c dt True ms show ?thesis by (simp add: cons_result_def)
    qed
    with l ih1(1) ih2(1) show ?thesis by simp
  next
    case False
    with "6.prems" qt q pk ct c pv dt have v: "d = CHR ''}''" "ms = [(k, x)]" "r = t4"
      by (auto split: if_splits)
    have "parse_members g cs = Some (ms, r)" if "length cs - length r \<le> g" for g
    proof -
      from that l ih1(1) v obtain g' where g: "g = Suc g'" by (cases g) auto
      with that l ih1(1) v have "length t2 - length t3 \<le> g'" by simp
      then have "parse_value g' t2 = Some (x, t3)" by (rule ih1(2))
      with g qt q pk ct c dt v show ?thesis by simp
    qed
    with l ih1(1) v show ?thesis by simp
  qed
qed

text \<open>The result of \<open>JSON_parse\<close> is the result of the descent with any bound that succeeds.\<close>

lemma JSON_parse_fuel:
  assumes "parse_value f s = Some (v, r)" and "skip_ws r = []"
  shows "JSON_parse s = Inr v"
proof -
  from parse_fuel(1) [OF assms(1)]
  have "\<forall>g. length s - length r \<le> g \<longrightarrow> parse_value g s = Some (v, r)" ..
  moreover have "length s - length r \<le> Suc (length s)" by simp
  ultimately have "parse_value (Suc (length s)) s = Some (v, r)" by blast
  with assms(2) show ?thesis by (simp add: JSON_parse_def del: parse_value.simps)
qed

section \<open>Properties of the submission page\<close>

lemma validateAndDisplayFile_reject:
  assumes "\<not> endsWith (toLowerCase (file_name f)) ''.dcm'' \<or> file_size f > 50 * 1024 * 1024"
  shows "\<exists>m. validateAndDisplayFile f st = st\<lparr>alerts := alerts st @ [m]\<rparr>"
  using assms by (auto simp: validateAndDisplayFile_def alert_def maxSize_def)

lemma validateAndDisplayFile_accept:
  assumes "endsWith (toLowerCase (file_name f)) ''.dcm''" and "file_size f \<le> 50 * 1024 * 1024"
  shows "selectedFile (validateAndDisplayFile f st) = Some f"
    and "\<not> runButton_disabled (validateAndDisplayFile f st)"
    and "fileNameDisplay (validateAndDisplayFile f st) = ''Selected: '' @ file_name f"
    and "alerts (validateAndDisplayFile f st) = alerts st"
  using assms by (simp_all add: validateAndDisplayFile_def console_write_def maxSize_def)

text \<open>
  C3. A file whose name, in lower case, does not end with \<open>.dcm\<close>, and a file of more than
  \<open>50 \<times> 1024 \<times> 1024\<close> bytes whatever its name, is rejected: one alert is raised and nothing
  else of the page changes, so the file selected before and the state of the button stay.
  A file with the extension and of at most that size becomes the selected file, its name
  is shown and the button is enabled, without an alert.
\<close>

theorem select_validates:
  "(\<not> endsWith (toLowerCase (file_name f)) ''.dcm'' \<or> file_size f > 50 * 1024 * 1024 \<longrightarrow>
      (\<exists>m. validateAndDisplayFile f st = st\<lparr>alerts := alerts st @ [m]\<rparr>)
      \<and> selectedFile (validateAndDisplayFile f st) = selectedFile st
      \<and> runButton_disabled (validateAndDisplayFile f st) = runButton_disabled st)
   \<and> (endsWith (toLowerCase (file_name f)) ''.dcm'' \<and> file_size f \<le> 50 * 1024 * 1024 \<longrightarrow>
      selectedFile (validateAndDisplayFile f st) = Some f
      \<and> \<not> runButton_disabled (validateAndDisplayFile f st)
      \<and> fileNameDisplay (validateAndDisplayFile f st) = ''Selected: '' @ file_name f
      \<and> alerts (validateAndDisplayFile f st) = alerts st)"
proof (intro conjI impI)
  assume bad: "\<not> endsWith (toLowerCase (file_name f)) ''.dcm'' \<or> file_size f > 50 * 1024 * 1024"
  from validateAndDisplayFile_reject [OF bad, of st]
  obtain m where eq: "validateAndDisplayFile f st = st\<lparr>alerts := alerts st @ [m]\<rparr>" ..
  show "\<exists>m. validateAndDisplayFile f st = st\<lparr>alerts := alerts st @ [m]\<rparr>"
    using eq by blast
  show "selectedFile (validateAndDisplayFile f st) = selectedFile st"
    by (simp add: eq)
  show "runButton_disabled (validateAndDisplayFile f st) = runButton_disabled st"
    by (simp add: eq)
next
  assume good: "endsWith (toLowerCase (file_name f)) ''.dcm'' \<and> file_size f \<le> 50 * 1024 * 1024"
  then have e: "endsWith (toLowerCase (file_name f)) ''.dcm''"
    and s: "file_size f \<le> 50 * 1024 * 1024" by simp_all
  show "selectedFile (validateAndDisplayFile f st) = Some f"
    by (rule validateAndDisplayFile_accept(1) [OF e s])
  show "\<not> runButton_disabled (validateAndDisplayFile f st)"
    by (rule validateAndDisplayFile_accept(2) [OF e s])
  show "fileNameDisplay (validateAndDisplayFile f st) = ''Selected: '' @ file_name f"
    by (rule validateAndDisplayFile_accept(3) [OF e s])
  show "alerts (validateAndDisplayFile f st) = alerts st"
    by (rule validateAndDisplayFile_accept(4) [OF e s])
qed

theorem select_validates_witness:
  "\<not> endsWith (toLowerCase (file_name \<lparr>file_name = ''notes.txt'', file_size = 2048\<rparr>)) ''.dcm''
   \<and> selectedFile (validateAndDisplayFile \<lparr>file_name = ''notes.txt'', file_size = 2048\<rparr>
         \<lparr>selectedFile = Some \<lparr>file_name = ''old.dcm'', file_size = 7\<rparr>, fileNameDisplay = ''Selected: old.dcm'',
          runButton_disabled = False, loading_active = False, alerts = [], console = [],
          requests = [], sessionStorage = Map.empty, navigations = []\<rparr>)
       = Some \<lparr>file_name = ''old.dcm'', file_size = 7\<rparr>
   \<and> (endsWith (toLowerCase (file_name \<lparr>file_name = ''Scan.DCM'', file_size = 10485760\<rparr>)) ''.dcm''
      \<and> file_size \<lparr>file_name = ''Scan.DCM'', file_size = 10485760\<rparr> \<le> 50 * 1024 * 1024)
   \<and> selectedFile (validateAndDisplayFile \<lparr>file_name = ''Scan.DCM'', file_size = 10485760\<rparr>
         \<lparr>selectedFile = None, fileNameDisplay = [],
          runButton_disabled = True, loading_active = False, alerts = [], console = [],
          requests = [], sessionStorage = Map.empty, navigations = []\<rparr>)
       = Some \<lparr>file_name = ''Scan.DCM'', file_size = 10485760\<rparr>"
proof -
  let ?bad = "\<lparr>file_name = ''notes.txt'', file_size = 2048\<rparr>"
  let ?good = "\<lparr>file_name = ''Scan.DCM'', file_size = 10485760\<rparr>"
  have n1: "\<not> endsWith (toLowerCase ''notes.txt'') ''.dcm''" by code_simp
  have n2: "endsWith (toLowerCase ''Scan.DCM'') ''.dcm''" by code_simp
  have h1: "\<not> endsWith (toLowerCase (file_name ?bad)) ''.dcm'' \<or> file_size ?bad > 50 * 1024 * 1024"
    using n1 by simp
  have h2: "endsWith (toLowerCase (file_name ?good)) ''.dcm'' \<and> file_size ?good \<le> 50 * 1024 * 1024"
    using n2 by simp
  show ?thesis
    using h1 h2 select_validates [of ?bad] select_validates [of ?good]
    by simp
qed

text \<open>
  C4. Without a selected file, \<open>runDetection\<close> raises the alert that asks for a file and
  changes nothing else: no request is issued and the session storage is not written.
\<close>

theorem submit_without_file:
  "selectedFile st = None \<Longrightarrow>
     runDetection eng fetch st = st\<lparr>alerts := alerts st @ [''Please select a DICOM file'']\<rparr>
     \<and> requests (runDetection eng fetch st) = requests st
     \<and> sessionStorage (runDetection eng fetch st) = sessionStorage st
     \<and> navigations (runDetection eng fetch st) = navigations st"
  by (simp add: runDetection_def alert_def)

theorem submit_without_file_witness:
  "selectedFile \<lparr>selectedFile = None, fileNameDisplay = [], runButton_disabled = False,
       loading_active = False, alerts = [], console = [], requests = [],
       sessionStorage = Map.empty, navigations = []\<rparr> = None
   \<and> requests (runDetection \<lparr>error_text = (\<lambda>e. []), string_gt_zero = (\<lambda>s. False)\<rparr> (\<lambda>r. Rejected ''Failed to fetch'')
        \<lparr>selectedFile = None, fileNameDisplay = [], runButton_disabled = False,
         loading_active = False, alerts = [], console = [], requests = [],
         sessionStorage = Map.empty, navigations = []\<rparr>) = []
   \<and> alerts (runDetection \<lparr>error_text = (\<lambda>e. []), string_gt_zero = (\<lambda>s. False)\<rparr> (\<lambda>r. Rejected ''Failed to fetch'')
        \<lparr>selectedFile = None, fileNameDisplay = [], runButton_disabled = False,
         loading_active = False, alerts = [], console = [], requests = [],
         sessionStorage = Map.empty, navigations = []\<rparr>) = [''Please select a DICOM file'']"
  using submit_without_file [of "\<lparr>selectedFile = None, fileNameDisplay = [], runButton_disabled = False,
       loading_active = False, alerts = [], console = [], requests = [],
       sessionStorage = Map.empty, navigations = []\<rparr>" "\<lparr>error_text = (\<lambda>e. []), string_gt_zero = (\<lambda>s. False)\<rparr>" "\<lambda>r. Rejected ''Failed to fetch''"]
  by simp

section \<open>Properties of a failed submission\<close>

















section \<open>Properties of the stored payload\<close>




section \<open>Properties of the load of the result page\<close>




section \<open>Properties of the cards\<close>

subsection \<open>The sort of the scores\<close>

lemma mset_insert_sorted: "mset (insert_sorted cmp x ys) = add_mset x (mset ys)"
  by (induction ys) auto

lemma js_sort_Nil: "js_sort cmp [] = []"
  by (simp add: js_sort_def)

lemma js_sort_Cons: "js_sort cmp (x # xs) = insert_sorted cmp x (js_sort cmp xs)"
  by (simp add: js_sort_def)

lemma mset_js_sort: "mset (js_sort cmp xs) = mset xs"
  by (induction xs) (simp_all add: js_sort_Nil js_sort_Cons mset_insert_sorted)

lemma set_insert_sorted: "set (insert_sorted cmp x ys) = insert x (set ys)"
  by (induction ys) auto

lemma descending_insert_sorted:
  assumes "sorted_wrt (\<lambda>a b. number_value (snd a) \<ge> number_value (snd b)) ys"
  shows "sorted_wrt (\<lambda>a b. number_value (snd a) \<ge> number_value (snd b))
           (insert_sorted by_score x ys)"
  using assms
proof (induction ys)
  case Nil
  then show ?case by simp
next
  case (Cons y ys)
  then show ?case
    by (auto simp: by_score_def set_insert_sorted)
qed

lemma descending_js_sort:
  "sorted_wrt (\<lambda>a b. number_value (snd a) \<ge> number_value (snd b)) (js_sort by_score es)"
proof (induction es)
  case Nil
  show ?case by (simp add: js_sort_Nil)
next
  case (Cons e es)
  then show ?case by (simp add: js_sort_Cons descending_insert_sorted)
qed

lemma filter_insert_sorted:
  "filter (\<lambda>e. number_value (snd e) = v) (insert_sorted by_score x ys) =
     (if number_value (snd x) = v then x # filter (\<lambda>e. number_value (snd e) = v) ys
      else filter (\<lambda>e. number_value (snd e) = v) ys)"
  by (induction ys) (auto simp: by_score_def)

lemma js_sort_stable:
  "filter (\<lambda>e. number_value (snd e) = v) (js_sort by_score es) =
     filter (\<lambda>e. number_value (snd e) = v) es"
  by (induction es) (simp_all add: js_sort_Nil js_sort_Cons filter_insert_sorted)

lemma those_numeric_entries:
  "those (map numeric_entry (map (\<lambda>e. (fst e, JNum (snd e))) es)) = Some es"
  by (induction es) auto

lemma score_rows_numeric:
  "score_rows (map (\<lambda>e. (fst e, JNum (snd e))) es) = Inr (map score_row_of (js_sort by_score es))"
  by (simp only: score_rows_def those_numeric_entries option.case)

lemma renderModelCard_rows:
  assumes "renderModelCard eng k md cfg = Inr c"
    and "get_prop (Some md) ''confidences'' =
           Inr (Some (JObj (map (\<lambda>e. (fst e, JNum (snd e))) es)))"
  shows "rows c = map score_row_of (js_sort by_score es)"
proof -
  from assms(2) have "or_default (Some (JObj (map (\<lambda>e. (fst e, JNum (snd e))) es))) (JObj [])
      = JObj (map (\<lambda>e. (fst e, JNum (snd e))) es)"
    by (simp add: or_default_def)
  with assms show ?thesis
    by (auto simp: renderModelCard_def score_rows_numeric split: sum.splits)
qed

lemma entry_of_row: "map (\<lambda>r. (label r, score r)) (map score_row_of es) = es"
  by (induction es) (simp_all add: score_row_of_def)

lemma isDetected_of_row:
  "map isDetected (map score_row_of es) =
     map (\<lambda>r. number_value (score r) \<ge> 50) (map score_row_of es)"
  by (simp add: score_row_of_def DETECTION_THRESHOLD_def)

lemma descending_rows:
  "sorted_wrt (\<lambda>a b. number_value (snd a) \<ge> number_value (snd b)) es \<Longrightarrow>
     sorted_wrt (\<lambda>r r'. number_value (score r) \<ge> number_value (score r')) (map score_row_of es)"
  by (induction es) (auto simp: score_row_of_def)

subsection \<open>The rows of a card\<close>

text \<open>
  C6. When the scores of a source are numbers, the rows of its card are the entries of
  \<open>confidences\<close> rearranged: in descending order of the score, the entries of one score in
  the order in which the object enumerates them, and a row carries the marker exactly
  when its score is at least 50. For the scores A 72.0, B 91.5 and C 40.0 the rows are
  B, A, C, with B and A marked and C not.
\<close>

theorem confidences_ranked:
  "(renderModelCard eng k md cfg = Inr c
      \<and> get_prop (Some md) ''confidences'' =
          Inr (Some (JObj (map (\<lambda>e. (fst e, JNum (snd e))) es)))
    \<longrightarrow> mset (map (\<lambda>r. (label r, score r)) (rows c)) = mset es
      \<and> sorted_wrt (\<lambda>r r'. number_value (score r) \<ge> number_value (score r')) (rows c)
      \<and> (\<forall>v. filter (\<lambda>e. number_value (snd e) = v) (map (\<lambda>r. (label r, score r)) (rows c))
              = filter (\<lambda>e. number_value (snd e) = v) es)
      \<and> map isDetected (rows c) = map (\<lambda>r. number_value (score r) \<ge> 50) (rows c))
   \<and> map_sum id (\<lambda>c. map (\<lambda>r. (label r, isDetected r)) (rows c))
        (renderModelCard eng k
          (JObj [(''confidences'',
                  JObj [(''A'', JNum (Number False [7, 2] 2)),
                        (''B'', JNum (Number False [9, 1, 5] 2)),
                        (''C'', JNum (Number False [4] 2))])]) cfg)
       = Inr [(''B'', True), (''A'', True), (''C'', False)]"
proof (intro conjI impI allI)
  assume a: "renderModelCard eng k md cfg = Inr c
      \<and> get_prop (Some md) ''confidences'' =
          Inr (Some (JObj (map (\<lambda>e. (fst e, JNum (snd e))) es)))"
  then have r: "rows c = map score_row_of (js_sort by_score es)"
    using renderModelCard_rows by blast
  show "mset (map (\<lambda>r. (label r, score r)) (rows c)) = mset es"
    by (simp only: r entry_of_row mset_js_sort)
  show "sorted_wrt (\<lambda>r r'. number_value (score r) \<ge> number_value (score r')) (rows c)"
    by (simp only: r descending_rows [OF descending_js_sort])
  show "filter (\<lambda>e. number_value (snd e) = v) (map (\<lambda>r. (label r, score r)) (rows c))
              = filter (\<lambda>e. number_value (snd e) = v) es" for v
    by (simp only: r entry_of_row js_sort_stable)
  show "map isDetected (rows c) = map (\<lambda>r. number_value (score r) \<ge> 50) (rows c)"
    by (simp only: r isDetected_of_row)
next
  show "map_sum id (\<lambda>c. map (\<lambda>r. (label r, isDetected r)) (rows c))
        (renderModelCard eng k
          (JObj [(''confidences'',
                  JObj [(''A'', JNum (Number False [7, 2] 2)),
                        (''B'', JNum (Number False [9, 1, 5] 2)),
                        (''C'', JNum (Number False [4] 2))])]) cfg)
       = Inr [(''B'', True), (''A'', True), (''C'', False)]"
    by (simp add: renderModelCard_def or_default_def score_rows_def js_sort_def by_score_def
        score_row_of_def number_value_def nat_of_digits_def DETECTION_THRESHOLD_def)
qed

text \<open>
  The example, from the text of the source result; D ties with A and stays behind it.
\<close>

theorem confidences_ranked_witness:
  \<open>JSON_parse ''{"detected": ["B"], "confidences": {"A": 72.0, "B": 91.5, "C": 40.0, "D": 72}}''
     = Inr (JObj [(''detected'', JArr [JStr ''B'']),
                  (''confidences'',
                   JObj (map (\<lambda>e. (fst e, JNum (snd e)))
                     [(''A'', Number False [7, 2] 2), (''B'', Number False [9, 1, 5] 2),
                      (''C'', Number False [4] 2), (''D'', Number False [7, 2] 2)]))])
   \<and> map_sum id (\<lambda>c. map label (rows c))
        (renderModelCard example_engine ''model_a''
          (JObj [(''detected'', JArr [JStr ''B'']),
                 (''confidences'',
                  JObj (map (\<lambda>e. (fst e, JNum (snd e)))
                    [(''A'', Number False [7, 2] 2), (''B'', Number False [9, 1, 5] 2),
                     (''C'', Number False [4] 2), (''D'', Number False [7, 2] 2)]))])
          example_config)
       = Inr [''B'', ''A'', ''D'', ''C'']
   \<and> (\<exists>c. renderModelCard example_engine ''model_a''
          (JObj [(''detected'', JArr [JStr ''B'']),
                 (''confidences'',
                  JObj (map (\<lambda>e. (fst e, JNum (snd e)))
                    [(''A'', Number False [7, 2] 2), (''B'', Number False [9, 1, 5] 2),
                     (''C'', Number False [4] 2), (''D'', Number False [7, 2] 2)]))])
          example_config = Inr c
        \<and> sorted_wrt (\<lambda>r r'. number_value (score r) \<ge> number_value (score r')) (rows c)
        \<and> map isDetected (rows c) = map (\<lambda>r. number_value (score r) \<ge> 50) (rows c))\<close>
proof -
  let ?es = "[(''A'', Number False [7, 2] 2), (''B'', Number False [9, 1, 5] 2),
              (''C'', Number False [4] 2), (''D'', Number False [7, 2] 2)]"
  let ?md = "JObj [(''detected'', JArr [JStr ''B'']),
                   (''confidences'', JObj (map (\<lambda>e. (fst e, JNum (snd e))) ?es))]"
  have p: \<open>JSON_parse ''{"detected": ["B"], "confidences": {"A": 72.0, "B": 91.5, "C": 40.0, "D": 72}}''
      = Inr ?md\<close>
    by code_simp
  obtain c where c: "renderModelCard example_engine ''model_a'' ?md example_config = Inr c"
    by (simp add: renderModelCard_def or_default_def score_rows_def)
  have g: "get_prop (Some ?md) ''confidences'' = Inr (Some (JObj (map (\<lambda>e. (fst e, JNum (snd e))) ?es)))"
    by simp
  have l: "map_sum id (\<lambda>c. map label (rows c))
        (renderModelCard example_engine ''model_a'' ?md example_config)
       = Inr [''B'', ''A'', ''D'', ''C'']"
    by (simp add: renderModelCard_def or_default_def score_rows_def js_sort_def by_score_def
        score_row_of_def number_value_def nat_of_digits_def)
  from confidences_ranked [of example_engine "''model_a''" ?md example_config c ?es] c g
  have "sorted_wrt (\<lambda>r r'. number_value (score r) \<ge> number_value (score r')) (rows c)
        \<and> map isDetected (rows c) = map (\<lambda>r. number_value (score r) \<ge> 50) (rows c)"
    by blast
  with p l c show ?thesis by blast
qed

subsection \<open>The headline of a card\<close>

lemma all_strings_JStr: "all_strings (map JStr ls) = Inr ls"
  by (induction ls) auto

lemma renderModelCard_summary:
  assumes "renderModelCard eng k md cfg = Inr c"
  shows "\<exists>d. get_prop (Some md) ''detected'' = Inr d
           \<and> detected_summary eng (or_default d (JArr [])) = Inr (summary c, detected_badges c)"
  using assms
  by (auto simp: renderModelCard_def split: sum.splits prod.splits)

lemma or_default_falsy: "\<not> truthy_opt d \<Longrightarrow> or_default d x = x"
  by (cases d) (auto simp: or_default_def)

text \<open>
  C7. When \<open>detected\<close> is a sequence, the headline of the card is that of a detection
  exactly when the sequence is not empty. The headline is a function of the value of
  \<open>detected\<close>: two sources with the same value of \<open>detected\<close> have the same headline,
  whatever their scores. So it can disagree with the markers of the rows: an empty
  sequence beside a score of 91.5 gives the headline of no detection over a marked
  row, and a detected label beside a score of 12.5 the headline of a detection over an
  unmarked row.
\<close>

theorem headline_from_detected:
  "(renderModelCard eng k md cfg = Inr c
      \<and> get_prop (Some md) ''detected'' = Inr (Some (JArr xs))
    \<longrightarrow> summary c = (if xs \<noteq> [] then Hemorrhage_Detected else No_Hemorrhage_Detected))
   \<and> (renderModelCard eng k md cfg = Inr c \<and> renderModelCard eng k' md' cfg' = Inr c'
        \<and> get_prop (Some md) ''detected'' = get_prop (Some md') ''detected''
      \<longrightarrow> summary c = summary c')
   \<and> map_sum id (\<lambda>c. (summary c, map isDetected (rows c)))
        (renderModelCard eng k
          (JObj [(''detected'', JArr []),
                 (''confidences'', JObj [(''Epidural'', JNum (Number False [9, 1, 5] 2))])]) cfg)
       = Inr (No_Hemorrhage_Detected, [True])
   \<and> map_sum id (\<lambda>c. (summary c, map isDetected (rows c)))
        (renderModelCard eng k
          (JObj [(''detected'', JArr [JStr ''Epidural'']),
                 (''confidences'', JObj [(''Epidural'', JNum (Number False [1, 2, 5] 2))])]) cfg)
       = Inr (Hemorrhage_Detected, [False])"
proof (intro conjI impI)
  assume a: "renderModelCard eng k md cfg = Inr c
      \<and> get_prop (Some md) ''detected'' = Inr (Some (JArr xs))"
  with renderModelCard_summary [of eng k md cfg c]
  have "detected_summary eng (or_default (Some (JArr xs)) (JArr [])) = Inr (summary c, detected_badges c)"
    by auto
  then show "summary c = (if xs \<noteq> [] then Hemorrhage_Detected else No_Hemorrhage_Detected)"
    by (auto simp: or_default_def split: if_splits sum.splits)
next
  assume a: "renderModelCard eng k md cfg = Inr c \<and> renderModelCard eng k' md' cfg' = Inr c'
        \<and> get_prop (Some md) ''detected'' = get_prop (Some md') ''detected''"
  from a renderModelCard_summary [of eng k md cfg c] obtain d where
    d: "get_prop (Some md) ''detected'' = Inr d"
       "detected_summary eng (or_default d (JArr [])) = Inr (summary c, detected_badges c)"
    by blast
  from a renderModelCard_summary [of eng k' md' cfg' c'] obtain d' where
    d': "get_prop (Some md') ''detected'' = Inr d'"
       "detected_summary eng (or_default d' (JArr [])) = Inr (summary c', detected_badges c')"
    by blast
  from a d(1) d'(1) have "d = d'" by simp
  with d(2) d'(2) show "summary c = summary c'" by simp
next
  show "map_sum id (\<lambda>c. (summary c, map isDetected (rows c)))
        (renderModelCard eng k
          (JObj [(''detected'', JArr []),
                 (''confidences'', JObj [(''Epidural'', JNum (Number False [9, 1, 5] 2))])]) cfg)
       = Inr (No_Hemorrhage_Detected, [True])"
    by (simp add: renderModelCard_def or_default_def score_rows_def js_sort_def by_score_def
        score_row_of_def number_value_def nat_of_digits_def DETECTION_THRESHOLD_def)
next
  show "map_sum id (\<lambda>c. (summary c, map isDetected (rows c)))
        (renderModelCard eng k
          (JObj [(''detected'', JArr [JStr ''Epidural'']),
                 (''confidences'', JObj [(''Epidural'', JNum (Number False [1, 2, 5] 2))])]) cfg)
       = Inr (Hemorrhage_Detected, [False])"
    by (simp add: renderModelCard_def or_default_def score_rows_def js_sort_def by_score_def
        score_row_of_def number_value_def nat_of_digits_def DETECTION_THRESHOLD_def)
qed


theorem headline_from_detected_witness:
  "renderModelCard example_engine ''model_a''
       (JObj [(''detected'', JArr [JStr ''Epidural'']),
              (''confidences'', JObj [(''Epidural'', JNum (Number False [1, 2, 5] 2))])])
       example_config
     = Inr \<lparr>card_title = ''EfficientNet V2'', card_badge = ''Primary'', isEnsemble = False,
            summary = Hemorrhage_Detected, detected_badges = [''Epidural''],
            rows = [\<lparr>label = ''Epidural'', score = Number False [1, 2, 5] 2, isDetected = False\<rparr>]\<rparr>
   \<and> renderModelCard example_engine ''model_b''
       (JObj [(''detected'', JArr [JStr ''Epidural''])])
       example_config
     = Inr \<lparr>card_title = ''EfficientNet V2'', card_badge = ''Primary'', isEnsemble = False,
            summary = Hemorrhage_Detected, detected_badges = [''Epidural''], rows = []\<rparr>
   \<and> get_prop (Some (JObj [(''detected'', JArr [JStr ''Epidural'']),
              (''confidences'', JObj [(''Epidural'', JNum (Number False [1, 2, 5] 2))])])) ''detected''
     = Inr (Some (JArr [JStr ''Epidural'']))
   \<and> get_prop (Some (JObj [(''detected'', JArr [JStr ''Epidural''])])) ''detected''
     = Inr (Some (JArr [JStr ''Epidural'']))
   \<and> summary \<lparr>card_title = ''EfficientNet V2'', card_badge = ''Primary'', isEnsemble = False,
            summary = Hemorrhage_Detected, detected_badges = [''Epidural''],
            rows = [\<lparr>label = ''Epidural'', score = Number False [1, 2, 5] 2, isDetected = False\<rparr>]\<rparr>
     = summary \<lparr>card_title = ''EfficientNet V2'', card_badge = ''Primary'', isEnsemble = False,
            summary = Hemorrhage_Detected, detected_badges = [''Epidural''], rows = []\<rparr>"
proof -
  let ?md = "JObj [(''detected'', JArr [JStr ''Epidural'']),
              (''confidences'', JObj [(''Epidural'', JNum (Number False [1, 2, 5] 2))])]"
  let ?md' = "JObj [(''detected'', JArr [JStr ''Epidural''])]"
  let ?c = "\<lparr>card_title = ''EfficientNet V2'', card_badge = ''Primary'', isEnsemble = False,
            summary = Hemorrhage_Detected, detected_badges = [''Epidural''],
            rows = [\<lparr>label = ''Epidural'', score = Number False [1, 2, 5] 2, isDetected = False\<rparr>]\<rparr>"
  let ?c' = "\<lparr>card_title = ''EfficientNet V2'', card_badge = ''Primary'', isEnsemble = False,
            summary = Hemorrhage_Detected, detected_badges = [''Epidural''], rows = []\<rparr>"
  have r: "renderModelCard example_engine ''model_a'' ?md example_config = Inr ?c"
    by (simp add: renderModelCard_def or_default_def score_rows_def js_sort_def by_score_def
        score_row_of_def number_value_def nat_of_digits_def DETECTION_THRESHOLD_def
        example_config_def)
  have r': "renderModelCard example_engine ''model_b'' ?md' example_config = Inr ?c'"
    by (simp add: renderModelCard_def or_default_def score_rows_def js_sort_def
        example_config_def)
  have g: "get_prop (Some ?md) ''detected'' = Inr (Some (JArr [JStr ''Epidural'']))" by simp
  have g': "get_prop (Some ?md') ''detected'' = Inr (Some (JArr [JStr ''Epidural'']))" by simp
  note t = headline_from_detected [where eng = example_engine and k = "''model_a''" and md = ?md
      and cfg = example_config and c = ?c and k' = "''model_b''" and md' = ?md'
      and cfg' = example_config and c' = ?c', THEN conjunct2, THEN conjunct1, rule_format]
  have gg: "get_prop (Some ?md) ''detected'' = get_prop (Some ?md') ''detected''"
    by (simp only: g g')
  have e: "summary ?c = summary ?c'"
    by (rule t) (intro conjI r r' gg)
  show ?thesis
    by (intro conjI r r' g g' e)
qed

subsection \<open>Missing fields\<close>

text \<open>
  C10. A source result whose \<open>detected\<close> is missing or falsy is rendered as with the empty
  sequence, and one whose \<open>confidences\<close> is missing or falsy as with the empty mapping:
  with both, the card has the headline of no detection, no badge and no row; with one of
  them, the other field is rendered as usual. The empty object is rendered so.
\<close>

theorem missing_fields_default:
  "(get_prop (Some md) ''detected'' = Inr d \<and> \<not> truthy_opt d
      \<and> get_prop (Some md) ''confidences'' = Inr cf \<and> \<not> truthy_opt cf
    \<longrightarrow> renderModelCard eng k md cfg =
          Inr \<lparr>card_title = title cfg, card_badge = badge cfg, isEnsemble = (k = ''ensemble''),
               summary = No_Hemorrhage_Detected, detected_badges = [], rows = []\<rparr>)
   \<and> (get_prop (Some md) ''detected'' = Inr d \<and> \<not> truthy_opt d
      \<and> get_prop (Some md) ''confidences'' =
          Inr (Some (JObj (map (\<lambda>e. (fst e, JNum (snd e))) es)))
    \<longrightarrow> renderModelCard eng k md cfg =
          Inr \<lparr>card_title = title cfg, card_badge = badge cfg, isEnsemble = (k = ''ensemble''),
               summary = No_Hemorrhage_Detected, detected_badges = [],
               rows = map score_row_of (js_sort by_score es)\<rparr>)
   \<and> (get_prop (Some md) ''detected'' = Inr (Some (JArr (map JStr ls)))
      \<and> get_prop (Some md) ''confidences'' = Inr cf \<and> \<not> truthy_opt cf
    \<longrightarrow> renderModelCard eng k md cfg =
          Inr \<lparr>card_title = title cfg, card_badge = badge cfg, isEnsemble = (k = ''ensemble''),
               summary = (if ls \<noteq> [] then Hemorrhage_Detected else No_Hemorrhage_Detected),
               detected_badges = ls, rows = []\<rparr>)
   \<and> renderModelCard eng k (JObj []) cfg =
          Inr \<lparr>card_title = title cfg, card_badge = badge cfg, isEnsemble = (k = ''ensemble''),
               summary = No_Hemorrhage_Detected, detected_badges = [], rows = []\<rparr>"
proof (intro conjI impI)
  assume "get_prop (Some md) ''detected'' = Inr d \<and> \<not> truthy_opt d
      \<and> get_prop (Some md) ''confidences'' = Inr cf \<and> \<not> truthy_opt cf"
  then show "renderModelCard eng k md cfg =
          Inr \<lparr>card_title = title cfg, card_badge = badge cfg, isEnsemble = (k = ''ensemble''),
               summary = No_Hemorrhage_Detected, detected_badges = [], rows = []\<rparr>"
    by (simp add: renderModelCard_def or_default_falsy score_rows_def js_sort_Nil)
next
  assume "get_prop (Some md) ''detected'' = Inr d \<and> \<not> truthy_opt d
      \<and> get_prop (Some md) ''confidences'' =
          Inr (Some (JObj (map (\<lambda>e. (fst e, JNum (snd e))) es)))"
  then show "renderModelCard eng k md cfg =
          Inr \<lparr>card_title = title cfg, card_badge = badge cfg, isEnsemble = (k = ''ensemble''),
               summary = No_Hemorrhage_Detected, detected_badges = [],
               rows = map score_row_of (js_sort by_score es)\<rparr>"
    by (simp add: renderModelCard_def or_default_falsy score_rows_numeric del: map_map)
       (simp add: or_default_def score_rows_numeric del: map_map)
next
  assume "get_prop (Some md) ''detected'' = Inr (Some (JArr (map JStr ls)))
      \<and> get_prop (Some md) ''confidences'' = Inr cf \<and> \<not> truthy_opt cf"
  then show "renderModelCard eng k md cfg =
          Inr \<lparr>card_title = title cfg, card_badge = badge cfg, isEnsemble = (k = ''ensemble''),
               summary = (if ls \<noteq> [] then Hemorrhage_Detected else No_Hemorrhage_Detected),
               detected_badges = ls, rows = []\<rparr>"
    by (simp add: renderModelCard_def or_default_falsy score_rows_def js_sort_Nil)
       (simp add: or_default_def all_strings_JStr)
next
  show "renderModelCard eng k (JObj []) cfg =
          Inr \<lparr>card_title = title cfg, card_badge = badge cfg, isEnsemble = (k = ''ensemble''),
               summary = No_Hemorrhage_Detected, detected_badges = [], rows = []\<rparr>"
    by (simp add: renderModelCard_def or_default_def score_rows_def js_sort_Nil)
qed


theorem missing_fields_default_witness:
  "get_prop (Some (JObj [(''detected'', JNull), (''confidences'', JStr [])])) ''detected'' = Inr (Some JNull)
   \<and> \<not> truthy_opt (Some JNull)
   \<and> get_prop (Some (JObj [(''detected'', JNull), (''confidences'', JStr [])])) ''confidences''
       = Inr (Some (JStr []))
   \<and> \<not> truthy_opt (Some (JStr []))
   \<and> renderModelCard example_engine ''model_c''
        (JObj [(''detected'', JNull), (''confidences'', JStr [])]) example_config
       = Inr \<lparr>card_title = title example_config, card_badge = badge example_config,
              isEnsemble = (''model_c'' = ''ensemble''),
              summary = No_Hemorrhage_Detected, detected_badges = [], rows = []\<rparr>
   \<and> get_prop (Some (JObj [(''confidences'', JObj (map (\<lambda>e. (fst e, JNum (snd e)))
          [(''Subdural'', Number False [7, 2] 2)]))])) ''detected'' = Inr None
   \<and> \<not> truthy_opt None
   \<and> renderModelCard example_engine ''model_c''
        (JObj [(''confidences'', JObj (map (\<lambda>e. (fst e, JNum (snd e)))
          [(''Subdural'', Number False [7, 2] 2)]))]) example_config
       = Inr \<lparr>card_title = title example_config, card_badge = badge example_config,
              isEnsemble = (''model_c'' = ''ensemble''),
              summary = No_Hemorrhage_Detected, detected_badges = [],
              rows = map score_row_of (js_sort by_score [(''Subdural'', Number False [7, 2] 2)])\<rparr>
   \<and> get_prop (Some (JObj [(''detected'', JArr (map JStr [''Subdural'']))])) ''confidences'' = Inr None
   \<and> renderModelCard example_engine ''model_c''
        (JObj [(''detected'', JArr (map JStr [''Subdural'']))]) example_config
       = Inr \<lparr>card_title = title example_config, card_badge = badge example_config,
              isEnsemble = (''model_c'' = ''ensemble''),
              summary = (if [''Subdural''] \<noteq> [] then Hemorrhage_Detected else No_Hemorrhage_Detected),
              detected_badges = [''Subdural''], rows = []\<rparr>"
proof -
  let ?m1 = "JObj [(''detected'', JNull), (''confidences'', JStr [])]"
  let ?es = "[(''Subdural'', Number False [7, 2] 2)]"
  let ?m2 = "JObj [(''confidences'', JObj (map (\<lambda>e. (fst e, JNum (snd e))) ?es))]"
  let ?m3 = "JObj [(''detected'', JArr (map JStr [''Subdural'']))]"
  have a1: "get_prop (Some ?m1) ''detected'' = Inr (Some JNull)" by simp
  have a2: "\<not> truthy_opt (Some JNull)" by simp
  have a3: "get_prop (Some ?m1) ''confidences'' = Inr (Some (JStr []))" by simp
  have a4: "\<not> truthy_opt (Some (JStr []))" by simp
  have b1: "get_prop (Some ?m2) ''detected'' = Inr None" by simp
  have b2: "\<not> truthy_opt None" by simp
  have b3: "get_prop (Some ?m2) ''confidences'' = Inr (Some (JObj (map (\<lambda>e. (fst e, JNum (snd e))) ?es)))"
    by simp
  have c1: "get_prop (Some ?m3) ''detected'' = Inr (Some (JArr (map JStr [''Subdural''])))" by simp
  have c2: "get_prop (Some ?m3) ''confidences'' = Inr None" by simp
  note t1 = missing_fields_default [where md = ?m1 and d = "Some JNull" and cf = "Some (JStr [])"
      and eng = example_engine and k = "''model_c''" and cfg = example_config, THEN conjunct1, rule_format]
  note t2 = missing_fields_default [where md = ?m2 and d = None and es = ?es
      and eng = example_engine and k = "''model_c''" and cfg = example_config,
      THEN conjunct2, THEN conjunct1, rule_format]
  note t3 = missing_fields_default [where md = ?m3 and cf = None and ls = "[''Subdural'']"
      and eng = example_engine and k = "''model_c''" and cfg = example_config,
      THEN conjunct2, THEN conjunct2, THEN conjunct1, rule_format]
  have r1: "renderModelCard example_engine ''model_c'' ?m1 example_config
       = Inr \<lparr>card_title = title example_config, card_badge = badge example_config,
              isEnsemble = (''model_c'' = ''ensemble''),
              summary = No_Hemorrhage_Detected, detected_badges = [], rows = []\<rparr>"
    by (rule t1) (intro conjI a1 a2 a3 a4)
  have r2: "renderModelCard example_engine ''model_c'' ?m2 example_config
       = Inr \<lparr>card_title = title example_config, card_badge = badge example_config,
              isEnsemble = (''model_c'' = ''ensemble''),
              summary = No_Hemorrhage_Detected, detected_badges = [],
              rows = map score_row_of (js_sort by_score ?es)\<rparr>"
    by (rule t2) (intro conjI b1 b2 b3)
  have r3: "renderModelCard example_engine ''model_c'' ?m3 example_config
       = Inr \<lparr>card_title = title example_config, card_badge = badge example_config,
              isEnsemble = (''model_c'' = ''ensemble''),
              summary = (if [''Subdural''] \<noteq> [] then Hemorrhage_Detected else No_Hemorrhage_Detected),
              detected_badges = [''Subdural''], rows = []\<rparr>"
    by (rule t3) (intro conjI c1 c2 b2)
  show ?thesis
    by (intro conjI a1 a2 a3 a4 b1 b2 c2 r1 r2 r3)
qed

subsection \<open>The sources of the comparison\<close>

text \<open>
  The cards follow the order of \<open>MODEL_CONFIG\<close>, whatever the order of the names
  in \<open>predictions\<close>, and a source without a truthy entry adds a warning and nothing else.
\<close>

lemma render_models_order:
  assumes "render_models eng (Some (JObj ps)) cfgs html st = Inr (html', st')"
  shows "map card_title html' =
           map card_title html
           @ map (\<lambda>kc. title (snd kc)) (filter (\<lambda>kc. if_truthy (map_of ps (fst kc)) \<noteq> None) cfgs)"
    and "r_console st' =
           r_console st
           @ map (\<lambda>kc. (Warn, [Text (''No data for '' @ fst kc)]))
               (filter (\<lambda>kc. if_truthy (map_of ps (fst kc)) = None) cfgs)"
  using assms
proof (induction cfgs arbitrary: html st)
  case Nil
  {
    case 1
    then show ?case by simp
  next
    case 2
    then show ?case by simp
  }
next
  case (Cons kc cfgs)
  obtain k cfg where kc: "kc = (k, cfg)" by (cases kc)
  {
    case 1
    show ?case
    proof (cases "if_truthy (map_of ps k)")
      case None
      with 1 kc Cons.IH(1) show ?thesis by simp
    next
      case (Some m)
      with 1 kc obtain c where c: "renderModelCard eng k m cfg = Inr c"
        and r: "render_models eng (Some (JObj ps)) cfgs (html @ [c]) st = Inr (html', st')"
        by (auto split: sum.splits)
      from c have "card_title c = title cfg"
        by (auto simp: renderModelCard_def split: sum.splits prod.splits)
      with Cons.IH(1) [OF r] Some kc show ?thesis by simp
    qed
  next
    case 2
    show ?case
    proof (cases "if_truthy (map_of ps k)")
      case None
      with 2 kc Cons.IH(2) show ?thesis by simp
    next
      case (Some m)
      with 2 kc obtain c where
        r: "render_models eng (Some (JObj ps)) cfgs (html @ [c]) st = Inr (html', st')"
        by (auto split: sum.splits)
      with Cons.IH(2) [OF r] Some kc show ?thesis by simp
    qed
  }
qed

lemma render_models_absent:
  assumes "\<forall>kc \<in> set cfgs. if_truthy (map_of ps (fst kc)) = None"
  shows "\<exists>st'. render_models eng (Some (JObj ps)) cfgs html st = Inr (html, st')"
  using assms
proof (induction cfgs arbitrary: st)
  case Nil
  show ?case by simp
next
  case (Cons kc cfgs)
  obtain k cfg where kc: "kc = (k, cfg)" by (cases kc)
  with Cons.prems have "if_truthy (map_of ps k) = None" by simp
  with Cons kc show ?case by simp
qed

text \<open>
  C1, at a payload that holds the three models and the ensemble: \<open>MODEL_CONFIG\<close> has no
  entry for the ensemble, so the loop renders the cards of the three models, in the order
  of their declaration, and neither renders the ensemble nor reports it missing.
\<close>

theorem ensemble_not_rendered:
  "''ensemble'' \<notin> set (map fst MODEL_CONFIG)
   \<and> displayModelComparison eng
       (JObj [(''predictions'',
               JObj [(''model_a'', JObj [(''detected'', JArr []), (''confidences'', JObj [])]),
                     (''model_b'', JObj [(''detected'', JArr []), (''confidences'', JObj [])]),
                     (''model_c'', JObj [(''detected'', JArr []), (''confidences'', JObj [])]),
                     (''ensemble'', JObj [(''detected'', JArr []), (''confidences'', JObj [])])])])
       st
     = Inr (st\<lparr>comparison :=
                 Some [\<lparr>card_title = ''EfficientNet V2'', card_badge = ''Primary'', isEnsemble = False,
                        summary = No_Hemorrhage_Detected, detected_badges = [], rows = []\<rparr>,
                       \<lparr>card_title = ''ConvNext'', card_badge = ''Secondary'', isEnsemble = False,
                        summary = No_Hemorrhage_Detected, detected_badges = [], rows = []\<rparr>,
                       \<lparr>card_title = ''Hybrid Model'', card_badge = ''Validation'', isEnsemble = False,
                        summary = No_Hemorrhage_Detected, detected_badges = [], rows = []\<rparr>],
               animation_pending := True\<rparr>)"
  by (simp add: MODEL_CONFIG_def displayModelComparison_def if_truthy_def renderModelCard_def
      or_default_def score_rows_def js_sort_Nil)

text \<open>
  The stored text of the end-to-end example, as the result page renders it: one card, for the
  first model, with the headline of a detection and one marked row.
\<close>

lemma end_to_end_example:
  \<open>comparison (init example_engine (example_results_page (Some
      ''{"predictions":{"model_a":{"detected":["Epidural"],"confidences":{"Epidural":81}}},"original_image":"/img/o.png","processed_image":"/img/p.png"}'')))
    = Some [\<lparr>card_title = ''EfficientNet V2'', card_badge = ''Primary'', isEnsemble = False,
              summary = Hemorrhage_Detected, detected_badges = [''Epidural''],
              rows = [\<lparr>label = ''Epidural'', score = Number False [8, 1] 2, isDetected = True\<rparr>]\<rparr>]\<close>
  by code_simp

end
